theory Spec2Isabelle
  imports Complex_Main
begin

section \<open>Bank statement converter: the validation and confidence engine\<close>

text \<open>
  A shallow embedding of the validation core of the repository:
  \<^verbatim>\<open>models/ocr_result.py\<close>, \<^verbatim>\<open>models/validation_report.py\<close>,
  \<^verbatim>\<open>validators/hard_rules_validator.py\<close>, \<^verbatim>\<open>validators/risk_signal_detector.py\<close>,
  \<^verbatim>\<open>validators/error_pattern_db.py\<close>, \<^verbatim>\<open>validators/confidence_scorer.py\<close> and the
  validation steps of \<^verbatim>\<open>core/pipeline.py\<close>.

  Conventions of the embedding.
  \<^item> Python \<^verbatim>\<open>int\<close> is \<open>int\<close>; a list index produced by \<^verbatim>\<open>enumerate\<close> or
    \<^verbatim>\<open>range\<close> is a \<open>nat\<close>.
  \<^item> Python \<^verbatim>\<open>float\<close> is modelled by a rational (\<open>rat\<close>) and float arithmetic by
    exact arithmetic; a float literal stands for the decimal fraction written. The
    rounding of double arithmetic and the value NaN are outside the model. The two
    comparisons of an integer count with \<^verbatim>\<open>n * 0.1\<close> agree with the exact comparison
    for every count below \<open>2 ^ 52\<close>. Where a Decimal is compared with the literal
    \<^verbatim>\<open>0.1\<close>, the exact value of that double is used.
  \<^item> \<^verbatim>\<open>decimal.Decimal\<close> is modelled for finite numbers as a signed coefficient and an
    exponent; arithmetic rounds to the 28 significant digits of Python's default
    context with ROUND_HALF_EVEN, comparisons are exact. The special values (NaN,
    Infinity), the sign of a zero and the exponent limits of the context
    (\<open>\<plusminus>999999\<close>) are outside the model.
  \<^item> \<^verbatim>\<open>datetime.date\<close> is modelled by its proleptic Gregorian ordinal
    (\<^verbatim>\<open>date.toordinal()\<close>), so comparison and difference in days are those of \<open>int\<close>;
    \<^verbatim>\<open>date.today()\<close> is a parameter \<open>today\<close>.
  \<^item> \<^verbatim>\<open>str\<close> is \<open>string\<close>, read as a sequence of ASCII characters.
  \<^item> The free-text \<^verbatim>\<open>message\<close> of a violation, signal or pattern match, and logging, are
    left out: nothing reads them back.
\<close>

subsection \<open>Decimal numbers\<close>

datatype decimal = Decimal (coeff: int) (expo: int)

definition prec :: nat where
  "prec = 28"

fun ndigits :: "nat \<Rightarrow> nat" where
  "ndigits n = (if n < 10 then 1 else Suc (ndigits (n div 10)))"

declare ndigits.simps [simp del]

definition round_half_even :: "nat \<Rightarrow> nat \<Rightarrow> nat" where
  "round_half_even n k =
     (let q = n div 10 ^ k; r = n mod 10 ^ k; h = 5 * 10 ^ (k - 1)
      in if h < r \<or> (r = h \<and> odd q) then q + 1 else q)"

text \<open>\<^verbatim>\<open>Decimal._fix\<close>: round the coefficient to at most \<open>prec\<close> digits.\<close>

definition dec_fix :: "decimal \<Rightarrow> decimal" where
  "dec_fix d =
     (let n = nat \<bar>coeff d\<bar>; len = ndigits n
      in if len \<le> prec then d
         else
           let k = len - prec; q = round_half_even n k
           in if prec < ndigits q
              then Decimal (sgn (coeff d) * int (q div 10)) (expo d + int k + 1)
              else Decimal (sgn (coeff d) * int q) (expo d + int k))"

text \<open>Both coefficients at the smaller of the two exponents.\<close>

definition dec_align :: "decimal \<Rightarrow> decimal \<Rightarrow> int \<times> int" where
  "dec_align a b =
     (let e = min (expo a) (expo b)
      in (coeff a * 10 ^ nat (expo a - e), coeff b * 10 ^ nat (expo b - e)))"

definition dec_add :: "decimal \<Rightarrow> decimal \<Rightarrow> decimal" where
  "dec_add a b =
     (case dec_align a b of (m, n) \<Rightarrow> dec_fix (Decimal (m + n) (min (expo a) (expo b))))"

definition dec_neg :: "decimal \<Rightarrow> decimal" where
  "dec_neg a = Decimal (- coeff a) (expo a)"

definition dec_sub :: "decimal \<Rightarrow> decimal \<Rightarrow> decimal" where
  "dec_sub a b = dec_add a (dec_neg b)"

definition dec_abs :: "decimal \<Rightarrow> decimal" where
  "dec_abs a = dec_fix (Decimal \<bar>coeff a\<bar> (expo a))"

definition dec_less :: "decimal \<Rightarrow> decimal \<Rightarrow> bool" where
  "dec_less a b = (case dec_align a b of (m, n) \<Rightarrow> m < n)"

definition dec_eq :: "decimal \<Rightarrow> decimal \<Rightarrow> bool" where
  "dec_eq a b = (case dec_align a b of (m, n) \<Rightarrow> m = n)"

definition dec_of_int :: "int \<Rightarrow> decimal" where
  "dec_of_int n = Decimal n 0"

definition dec_val :: "decimal \<Rightarrow> rat" where
  "dec_val d =
     (if 0 \<le> expo d then of_int (coeff d) * 10 ^ nat (expo d)
      else of_int (coeff d) / 10 ^ nat (- expo d))"

text \<open>\<^verbatim>\<open>sum(gen, Decimal('0'))\<close>: addition from the left, starting at zero.\<close>

definition dec_sum :: "decimal list \<Rightarrow> decimal" where
  "dec_sum ds = foldl dec_add (Decimal 0 0) ds"

text \<open>
  The sum of \<open>a\<close> and \<open>b\<close> has at most \<open>prec\<close> digits: the context does not round it.
\<close>

definition unrounded :: "decimal \<Rightarrow> decimal \<Rightarrow> bool" where
  "unrounded a b = (case dec_align a b of (m, n) \<Rightarrow> ndigits (nat \<bar>m + n\<bar>) \<le> prec)"

text \<open>The value of an optional amount, an absent one counting as zero.\<close>

definition or_zero :: "decimal option \<Rightarrow> rat" where
  "or_zero a = (case a of None \<Rightarrow> 0 | Some d \<Rightarrow> dec_val d)"

subsection \<open>The transaction table (\<^verbatim>\<open>models/ocr_result.py\<close>)\<close>

type_synonym date = int

record BoundingBox =
  bbox_x :: rat
  bbox_y :: rat
  bbox_width :: rat
  bbox_height :: rat

record TransactionRow =
  transaction_date :: "date option"
  description :: string
  deposit :: "decimal option"
  withdrawal :: "decimal option"
  balance :: "decimal option"
  posting_date :: "date option"
  reference_number :: "string option"
  date_confidence :: rat
  description_confidence :: rat
  amount_confidence :: rat
  balance_confidence :: rat
  bbox :: "BoundingBox option"
  page_number :: int
  row_index :: int
  amount_raw :: string
  date_raw :: string

record OCRResult =
  document_id :: string
  engine :: string
  processed_at :: string
  rows :: "TransactionRow list"
  header :: "string list"
  header_detected :: bool
  header_confidence :: rat
  opening_balance :: "decimal option"
  closing_balance :: "decimal option"
  page_count :: int
  total_rows :: int
  overall_confidence :: rat

subsection \<open>Rule violations (\<^verbatim>\<open>models/validation_report.py\<close>)\<close>

text \<open>
  \<open>difference\<close> holds the decimal that the source converts with \<^verbatim>\<open>float(diff)\<close>.
\<close>

record RuleViolation =
  rule :: string
  severity :: string
  row :: "nat option"
  field :: "string option"
  expected :: "decimal option"
  actual :: "decimal option"
  difference :: "decimal option"

definition violation :: "string \<Rightarrow> string \<Rightarrow> nat option \<Rightarrow> RuleViolation" where
  "violation r s i =
     \<lparr>rule = r, severity = s, row = i, field = None, expected = None, actual = None,
      difference = None\<rparr>"

subsection \<open>The hard rules validator (\<^verbatim>\<open>validators/hard_rules_validator.py\<close>)\<close>

definition tolerance :: decimal where
  "tolerance = Decimal 2 (- 2)"

definition is_valid_currency :: "decimal \<Rightarrow> bool" where
  "is_valid_currency amount =
     (let decimal_places = \<bar>expo amount\<bar>
      in if 2 < decimal_places then False
         else if dec_less (dec_of_int 1000000) (dec_abs amount) then False
         else True)"

definition date_row_violations ::
  "date \<Rightarrow> TransactionRow list \<Rightarrow> nat \<Rightarrow> TransactionRow \<Rightarrow> RuleViolation list" where
  "date_row_violations today rs idx r =
     (case transaction_date r of
        None \<Rightarrow> [violation ''DATE_MISSING'' ''CRITICAL'' (Some idx)]
      | Some d \<Rightarrow>
          (if today < d then [violation ''DATE_IN_FUTURE'' ''CRITICAL'' (Some idx)] else []) @
          (if 0 < idx
           then (case transaction_date (rs ! (idx - 1)) of
                   None \<Rightarrow> []
                 | Some p \<Rightarrow>
                     if d < p then [violation ''DATE_NOT_MONOTONIC'' ''HIGH'' (Some idx)]
                     else [])
           else []))"

definition validate_date_range :: "date \<Rightarrow> OCRResult \<Rightarrow> RuleViolation list" where
  "validate_date_range today result =
     concat (map (\<lambda>(idx, r). date_row_violations today (rows result) idx r)
       (enumerate 0 (rows result)))"

definition format_violation :: "nat \<Rightarrow> string \<Rightarrow> decimal option \<Rightarrow> RuleViolation list" where
  "format_violation idx f amount =
     (case amount of
        None \<Rightarrow> []
      | Some a \<Rightarrow>
          if \<not> is_valid_currency a
          then [(violation ''INVALID_AMOUNT_FORMAT'' ''CRITICAL'' (Some idx))\<lparr>field := Some f\<rparr>]
          else [])"

definition presence_violation :: "nat \<Rightarrow> TransactionRow \<Rightarrow> RuleViolation list" where
  "presence_violation idx r =
     (case (deposit r, withdrawal r) of
        (None, None) \<Rightarrow> [violation ''NO_AMOUNT'' ''HIGH'' (Some idx)]
      | (Some d, Some w) \<Rightarrow>
          if \<not> dec_eq d (dec_of_int 0) \<and> \<not> dec_eq w (dec_of_int 0)
          then [violation ''BOTH_DEPOSIT_WITHDRAWAL'' ''MEDIUM'' (Some idx)]
          else []
      | _ \<Rightarrow> [])"

definition amount_row_violations :: "nat \<Rightarrow> TransactionRow \<Rightarrow> RuleViolation list" where
  "amount_row_violations idx r =
     presence_violation idx r @
     format_violation idx ''deposit'' (deposit r) @
     format_violation idx ''withdrawal'' (withdrawal r) @
     format_violation idx ''balance'' (balance r)"

definition validate_amount_format :: "OCRResult \<Rightarrow> RuleViolation list" where
  "validate_amount_format result =
     concat (map (\<lambda>(idx, r). amount_row_violations idx r) (enumerate 0 (rows result)))"

definition expected_balance :: "decimal \<Rightarrow> TransactionRow \<Rightarrow> decimal" where
  "expected_balance prev_balance curr_row =
     (let e1 = (case deposit curr_row of None \<Rightarrow> prev_balance | Some d \<Rightarrow> dec_add prev_balance d)
      in (case withdrawal curr_row of None \<Rightarrow> e1 | Some w \<Rightarrow> dec_sub e1 w))"

text \<open>
  None of the additions and subtractions of the running-balance check of a row is
  rounded: each result has at most \<open>prec\<close> digits.
\<close>

definition exact_running_check :: "decimal \<Rightarrow> TransactionRow \<Rightarrow> decimal \<Rightarrow> bool" where
  "exact_running_check prev_balance curr_row curr_balance =
     ((case deposit curr_row of None \<Rightarrow> True | Some d \<Rightarrow> unrounded prev_balance d) \<and>
      (case withdrawal curr_row of
         None \<Rightarrow> True
       | Some w \<Rightarrow>
           unrounded
             (case deposit curr_row of None \<Rightarrow> prev_balance | Some d \<Rightarrow> dec_add prev_balance d)
             (dec_neg w)) \<and>
      unrounded (expected_balance prev_balance curr_row) (dec_neg curr_balance))"

definition mismatch :: "string \<Rightarrow> nat option \<Rightarrow> decimal \<Rightarrow> decimal \<Rightarrow> RuleViolation list" where
  "mismatch r i e a =
     (let diff = dec_abs (dec_sub e a)
      in if dec_less tolerance diff
         then [(violation r ''CRITICAL'' i)
                 \<lparr>expected := Some e, actual := Some a, difference := Some diff\<rparr>]
         else [])"

definition running_pair :: "TransactionRow list \<Rightarrow> nat \<Rightarrow> RuleViolation list" where
  "running_pair rs i =
     (let prev_row = rs ! (i - 1); curr_row = rs ! i
      in case (balance prev_row, balance curr_row) of
           (Some pb, Some cb) \<Rightarrow>
             mismatch ''RUNNING_BALANCE_MISMATCH'' (Some i) (expected_balance pb curr_row) cb
         | _ \<Rightarrow> [])"

definition validate_running_balance :: "OCRResult \<Rightarrow> RuleViolation list" where
  "validate_running_balance result =
     concat (map (running_pair (rows result)) [1..<length (rows result)])"

definition validate_overall_balance :: "OCRResult \<Rightarrow> RuleViolation list" where
  "validate_overall_balance result =
     (case (opening_balance result, closing_balance result) of
        (Some ob, Some cb) \<Rightarrow>
          (let total_deposits = dec_sum (List.map_filter deposit (rows result));
               total_withdrawals = dec_sum (List.map_filter withdrawal (rows result));
               expected_closing = dec_sub (dec_add ob total_deposits) total_withdrawals
           in mismatch ''OVERALL_BALANCE_MISMATCH'' None expected_closing cb)
      | _ \<Rightarrow> [])"

definition validate :: "date \<Rightarrow> OCRResult \<Rightarrow> RuleViolation list" where
  "validate today result =
     (if rows result = [] then [violation ''NO_ROWS'' ''CRITICAL'' None]
      else validate_date_range today result @ validate_amount_format result @
           validate_running_balance result @ validate_overall_balance result)"

definition present_fields :: "TransactionRow \<Rightarrow> nat" where
  "present_fields r =
     (if deposit r \<noteq> None then 1 else 0) + (if withdrawal r \<noteq> None then 1 else 0) +
     (if balance r \<noteq> None then 1 else 0)"

text \<open>The three monetary fields of a row, in the order the format checks read them.\<close>

definition monetary_fields :: "TransactionRow \<Rightarrow> decimal option list" where
  "monetary_fields r = [deposit r, withdrawal r, balance r]"

definition count_checks :: "OCRResult \<Rightarrow> int" where
  "count_checks result =
     (let rs = rows result; n = length rs
      in if rs = [] then 1
         else
           int n + (if 1 < n then int n - 1 else 0) + int n +
           int (sum_list (map present_fields rs)) +
           int (length (filter (\<lambda>i. balance (rs ! (i - 1)) \<noteq> None \<and> balance (rs ! i) \<noteq> None)
                  [1..<n])) +
           (if opening_balance result \<noteq> None \<and> closing_balance result \<noteq> None then 1 else 0))"

subsection \<open>Risk signals (\<^verbatim>\<open>models/ocr_result.py\<close>)\<close>

record low_conf_field =
  lc_row :: nat
  lc_field :: string
  lc_confidence :: rat
  lc_priority :: string

record coverage_issue =
  ci_severity :: string
  ci_action :: string
  ci_coverage :: "(string \<times> rat) list"
  ci_missing_examples :: "(string \<times> nat list) list"

datatype structural_issue =
    INCONSISTENT_ROWS nat "nat list"
  | HEADER_DETECTION_FAILURE rat
  | MULTI_PAGE_DOCUMENT int "nat list"

datatype logic_error =
    BALANCE_MISMATCH decimal decimal decimal
  | DATE_RANGE_ANOMALY int date date
  | NEGATIVE_DEPOSIT nat decimal
  | NEGATIVE_WITHDRAWAL nat decimal

text \<open>The payload of a signal's \<^verbatim>\<open>details\<close> dictionary, beside severity and action.\<close>

datatype signal_payload =
    NoPayload
  | LowConfidenceFields "low_conf_field list"
  | CoverageIssue coverage_issue
  | StructuralIssues "structural_issue list"
  | LogicErrors "logic_error list"
  | TemplateConfidence rat

record signal_details =
  d_severity :: "string option"
  d_action :: "string option"
  d_payload :: signal_payload

record RiskSignal =
  signal_type :: string
  signal_severity :: string
  details :: signal_details
  action :: string

text \<open>\<^verbatim>\<open>RiskSignals.add\<close>, on the list of signals of the collection.\<close>

definition add :: "RiskSignal list \<Rightarrow> string \<Rightarrow> signal_details \<Rightarrow> RiskSignal list" where
  "add sigs ty d =
     sigs @ [\<lparr>signal_type = ty,
              signal_severity = (case d_severity d of None \<Rightarrow> ''MEDIUM'' | Some s \<Rightarrow> s),
              details = d,
              action = (case d_action d of None \<Rightarrow> ''LOG_ONLY'' | Some a \<Rightarrow> a)\<rparr>]"

record risk_summary =
  total_signals :: int
  critical_count :: int
  high_count :: int
  medium_count :: int
  low_count :: int
  signals :: "RiskSignal list"

definition count_severity :: "string \<Rightarrow> RiskSignal list \<Rightarrow> int" where
  "count_severity s sigs = int (length (filter (\<lambda>g. signal_severity g = s) sigs))"

text \<open>\<^verbatim>\<open>RiskSignals.to_dict\<close>.\<close>

definition to_dict :: "RiskSignal list \<Rightarrow> risk_summary" where
  "to_dict sigs =
     \<lparr>total_signals = int (length sigs),
      critical_count = count_severity ''CRITICAL'' sigs,
      high_count = count_severity ''HIGH'' sigs,
      medium_count = count_severity ''MEDIUM'' sigs,
      low_count = count_severity ''LOW'' sigs,
      signals = sigs\<rparr>"

subsection \<open>The risk signal detector (\<^verbatim>\<open>validators/risk_signal_detector.py\<close>)\<close>

record ValidationConfig =
  confidence_threshold :: rat
  field_coverage_thresholds :: "string \<Rightarrow> rat option"
  confidence_weights :: "string \<Rightarrow> rat option"
  trigger_rules :: "string \<Rightarrow> bool option"

definition default_config :: ValidationConfig where
  "default_config =
     \<lparr>confidence_threshold = 85 / 100,
      field_coverage_thresholds =
        map_of [(''transaction_date'', 95 / 100), (''amount'', 90 / 100), (''balance'', 85 / 100)],
      confidence_weights =
        map_of [(''engine_quality'', 30 / 100), (''field_completeness'', 25 / 100),
                (''rule_consistency'', 30 / 100), (''risk_signals'', 15 / 100)],
      trigger_rules =
        map_of [(''low_confidence'', True), (''low_coverage'', True),
                (''structural_anomaly'', True), (''logic_failure'', True),
                (''unknown_template'', True)]\<rparr>"

text \<open>\<^verbatim>\<open>d.get(k, default)\<close>.\<close>

definition get_or :: "('k \<Rightarrow> 'v option) \<Rightarrow> 'k \<Rightarrow> 'v \<Rightarrow> 'v" where
  "get_or m k dflt = (case m k of None \<Rightarrow> dflt | Some v \<Rightarrow> v)"

definition known_banks :: "(string \<times> string list) list" where
  "known_banks =
     [(''RBC'', [''Royal Bank'', ''RBC'', ''Royal'']),
      (''TD'', [''TD Bank'', ''Toronto-Dominion'', ''TD Canada'']),
      (''BMO'', [''Bank of Montreal'', ''BMO'', ''BMO Bank'']),
      (''Scotiabank'', [''Scotiabank'', ''Scotia'', ''Bank of Nova Scotia'']),
      (''CIBC'', [''CIBC'', ''Canadian Imperial'', ''Imperial Bank''])]"

definition low_conf_row :: "rat \<Rightarrow> nat \<Rightarrow> TransactionRow \<Rightarrow> low_conf_field list" where
  "low_conf_row threshold row_idx r =
     (if amount_confidence r < threshold
      then [\<lparr>lc_row = row_idx, lc_field = ''amount'', lc_confidence = amount_confidence r,
              lc_priority = ''P0''\<rparr>]
      else []) @
     (if balance_confidence r < threshold
      then [\<lparr>lc_row = row_idx, lc_field = ''balance'', lc_confidence = balance_confidence r,
              lc_priority = ''P0''\<rparr>]
      else []) @
     (if date_confidence r < threshold
      then [\<lparr>lc_row = row_idx, lc_field = ''transaction_date'',
              lc_confidence = date_confidence r, lc_priority = ''P1''\<rparr>]
      else [])"

definition check_low_confidence :: "ValidationConfig \<Rightarrow> OCRResult \<Rightarrow> low_conf_field list" where
  "check_low_confidence cfg result =
     (let low_conf_fields =
            concat (map (\<lambda>(row_idx, r). low_conf_row (confidence_threshold cfg) row_idx r)
              (enumerate 0 (rows result)));
          p0_count = length (filter (\<lambda>f. lc_priority f = ''P0'') low_conf_fields);
          p1_count = length (filter (\<lambda>f. lc_priority f = ''P1'') low_conf_fields);
          p1_rate = (if rows result \<noteq> [] then of_nat p1_count / of_nat (length (rows result))
                     else (0 :: rat))
      in if 0 < p0_count \<or> 2 / 10 < p1_rate then low_conf_fields else [])"

text \<open>The indices of the rows that satisfy \<open>P\<close>, in order.\<close>

definition indices_where :: "(TransactionRow \<Rightarrow> bool) \<Rightarrow> TransactionRow list \<Rightarrow> nat list" where
  "indices_where P rs = map fst (filter (\<lambda>(i, r). P r) (enumerate 0 rs))"

definition check_field_coverage :: "ValidationConfig \<Rightarrow> OCRResult \<Rightarrow> coverage_issue option" where
  "check_field_coverage cfg result =
     (if rows result = [] then None
      else
        let total = (of_nat (length (rows result)) :: rat);
            missing_date = indices_where (\<lambda>r. transaction_date r = None) (rows result);
            missing_amount =
              indices_where (\<lambda>r. deposit r = None \<and> withdrawal r = None) (rows result);
            missing_balance = indices_where (\<lambda>r. balance r = None) (rows result);
            coverage =
              [(''transaction_date'', 1 - of_nat (length missing_date) / total),
               (''amount'', 1 - of_nat (length missing_amount) / total),
               (''balance'', 1 - of_nat (length missing_balance) / total)];
            below =
              filter (\<lambda>(f, c). c < get_or (field_coverage_thresholds cfg) f 0) coverage
        in if below = [] then None
           else Some
             \<lparr>ci_severity = (if list_ex (\<lambda>(f, c). c < 7 / 10) below then ''HIGH'' else ''MEDIUM''),
              ci_action = ''REVIEW_RECOMMENDED'',
              ci_coverage = coverage,
              ci_missing_examples =
                [(''transaction_date'', take 10 missing_date),
                 (''amount'', take 10 missing_amount),
                 (''balance'', take 10 missing_balance)]\<rparr>)"

definition missing_count :: "TransactionRow \<Rightarrow> nat" where
  "missing_count r =
     (if transaction_date r = None then 1 else 0) + (if balance r = None then 1 else 0) +
     (if deposit r = None \<and> withdrawal r = None then 1 else 0)"

definition check_structural_anomaly :: "OCRResult \<Rightarrow> structural_issue list" where
  "check_structural_anomaly result =
     (let rs = rows result
      in if length rs < 3 then []
         else
           let incomplete_rows = indices_where (\<lambda>r. 2 \<le> missing_count r) rs;
               page_transitions =
                 filter (\<lambda>i. page_number (rs ! i) \<noteq> page_number (rs ! (i - 1))) [1..<length rs]
           in (if (of_nat (length rs) :: rat) * (1 / 10) < of_nat (length incomplete_rows)
               then [INCONSISTENT_ROWS (length incomplete_rows) (take 10 incomplete_rows)]
               else []) @
              (if \<not> header_detected result \<or> header_confidence result < 7 / 10
               then [HEADER_DETECTION_FAILURE (header_confidence result)]
               else []) @
              (if 1 < page_count result \<and> 0 < length page_transitions
               then [MULTI_PAGE_DOCUMENT (page_count result) page_transitions]
               else []))"


text \<open>
  \<^verbatim>\<open>Decimal.__truediv__\<close>, for a divisor that is not zero (the only call guards it):
  a quotient of \<open>prec + 1\<close> or \<open>prec + 2\<close> digits, whose last digit is moved off 0 and
  5 when the division is inexact, so that the final rounding is right, and which is
  stripped of trailing zeros when the division is exact.
\<close>

function strip_zeros :: "nat \<Rightarrow> int \<Rightarrow> int \<Rightarrow> nat \<times> int" where
  "strip_zeros c e ideal =
     (if e < ideal \<and> c mod 10 = 0 then strip_zeros (c div 10) (e + 1) ideal else (c, e))"
  by pat_completeness auto
termination
  by (relation "measure (\<lambda>(c, e, ideal). nat (ideal - e))") auto

declare strip_zeros.simps [simp del]

definition dec_div :: "decimal \<Rightarrow> decimal \<Rightarrow> decimal" where
  "dec_div a b =
     (let s = sgn (coeff a) * sgn (coeff b); n1 = nat \<bar>coeff a\<bar>; n2 = nat \<bar>coeff b\<bar>
      in if n1 = 0 then dec_fix (Decimal 0 (expo a - expo b))
         else
           let shift = int (ndigits n2) - int (ndigits n1) + int prec + 1;
               e = expo a - expo b - shift;
               num = (if 0 \<le> shift then n1 * 10 ^ nat shift else n1);
               den = (if 0 \<le> shift then n2 else n2 * 10 ^ nat (- shift));
               q = num div den;
               r = num mod den
           in if r \<noteq> 0
              then dec_fix (Decimal (s * int (if q mod 5 = 0 then q + 1 else q)) e)
              else (case strip_zeros q e (expo a - expo b) of
                      (c, e') \<Rightarrow> dec_fix (Decimal (s * int c) e')))"

text \<open>
  The double that the literal \<^verbatim>\<open>0.1\<close> denotes, \<open>3602879701896397 / 2 ^ 55\<close>: Python
  compares a Decimal with a float by the exact value of the float.
\<close>

definition double_tenth :: rat where
  "double_tenth = 3602879701896397 / 36028797018963968"

definition negative_amounts :: "nat \<Rightarrow> TransactionRow \<Rightarrow> logic_error list" where
  "negative_amounts idx r =
     (case deposit r of
        None \<Rightarrow> []
      | Some d \<Rightarrow> if dec_less d (dec_of_int 0) then [NEGATIVE_DEPOSIT idx d] else []) @
     (case withdrawal r of
        None \<Rightarrow> []
      | Some w \<Rightarrow> if dec_less w (dec_of_int 0) then [NEGATIVE_WITHDRAWAL idx w] else [])"

definition quick_logic_check :: "OCRResult \<Rightarrow> logic_error list" where
  "quick_logic_check result =
     (case (opening_balance result, closing_balance result) of
        (Some ob, Some cb) \<Rightarrow>
          if rows result \<noteq> []
          then
            let total_deposits = dec_sum (List.map_filter deposit (rows result));
                total_withdrawals = dec_sum (List.map_filter withdrawal (rows result));
                expected_closing = dec_sub (dec_add ob total_deposits) total_withdrawals
            in if \<not> dec_eq cb (dec_of_int 0)
               then
                 let diff_rate = dec_div (dec_abs (dec_sub expected_closing cb)) (dec_abs cb)
                 in if double_tenth < dec_val diff_rate
                    then [BALANCE_MISMATCH expected_closing cb diff_rate]
                    else []
               else []
          else []
      | _ \<Rightarrow> []) @
     (let dates = List.map_filter transaction_date (rows result)
      in if dates \<noteq> []
         then
           let hi = fold max (tl dates) (hd dates); lo = fold min (tl dates) (hd dates);
               date_span = hi - lo
           in if 400 < date_span then [DATE_RANGE_ANOMALY date_span lo hi] else []
         else []) @
     concat (map (\<lambda>(idx, r). negative_amounts idx r) (enumerate 0 (rows result)))"

text \<open>Strings: \<^verbatim>\<open>str.lower\<close>, \<^verbatim>\<open>str.upper\<close>, \<^verbatim>\<open>sep.join\<close> and \<^verbatim>\<open>sub in s\<close>.\<close>

definition char_lower :: "char \<Rightarrow> char" where
  "char_lower c =
     (let n = (of_char c :: nat) in if 65 \<le> n \<and> n \<le> 90 then char_of (n + 32) else c)"

definition char_upper :: "char \<Rightarrow> char" where
  "char_upper c =
     (let n = (of_char c :: nat) in if 97 \<le> n \<and> n \<le> 122 then char_of (n - 32) else c)"

definition lower :: "string \<Rightarrow> string" where
  "lower s = map char_lower s"

definition upper :: "string \<Rightarrow> string" where
  "upper s = map char_upper s"

fun join :: "string \<Rightarrow> string list \<Rightarrow> string" where
  "join sep [] = []"
| "join sep [s] = s"
| "join sep (s # t # ss) = s @ sep @ join sep (t # ss)"

fun starts_with :: "string \<Rightarrow> string \<Rightarrow> bool" where
  "starts_with s [] = True"
| "starts_with [] (c # cs) = False"
| "starts_with (d # ds) (c # cs) = (d = c \<and> starts_with ds cs)"

fun contains :: "string \<Rightarrow> string \<Rightarrow> bool" where
  "contains [] sub = (sub = [])"
| "contains (c # cs) sub = (starts_with (c # cs) sub \<or> contains cs sub)"

definition mentions_known_bank :: "string \<Rightarrow> bool" where
  "mentions_known_bank lowered =
     list_ex (\<lambda>(bank, keywords). list_ex (\<lambda>kw. contains lowered (lower kw)) keywords) known_banks"

definition detect_bank_template :: "OCRResult \<Rightarrow> rat" where
  "detect_bank_template result =
     (if rows result = [] then 0
      else
        let text_sample =
              join '' '' (filter (\<lambda>s. s \<noteq> []) (map description (take 5 (rows result))));
            text_sample_lower = lower text_sample
        in if mentions_known_bank text_sample_lower then 9 / 10
           else if header result \<noteq> [] \<and> mentions_known_bank (lower (join '' '' (header result)))
           then 85 / 100
           else 3 / 10)"

text \<open>
  \<^verbatim>\<open>detect_signals\<close> passes one \<^verbatim>\<open>RiskSignals\<close> object through its five checks; each
  check is a step on the list of signals collected so far.
\<close>

definition low_confidence_step ::
  "ValidationConfig \<Rightarrow> OCRResult \<Rightarrow> RiskSignal list \<Rightarrow> RiskSignal list" where
  "low_confidence_step cfg docai_result sigs =
     (if get_or (trigger_rules cfg) ''low_confidence'' True
      then
        let low_conf_fields = check_low_confidence cfg docai_result
        in if low_conf_fields \<noteq> []
           then add sigs ''LOW_CONFIDENCE''
                  \<lparr>d_severity = Some ''HIGH'', d_action = Some ''REVIEW_RECOMMENDED'',
                   d_payload = LowConfidenceFields low_conf_fields\<rparr>
           else sigs
      else sigs)"

definition low_coverage_step ::
  "ValidationConfig \<Rightarrow> OCRResult \<Rightarrow> RiskSignal list \<Rightarrow> RiskSignal list" where
  "low_coverage_step cfg docai_result sigs =
     (if get_or (trigger_rules cfg) ''low_coverage'' True
      then
        (case check_field_coverage cfg docai_result of
           None \<Rightarrow> sigs
         | Some issue \<Rightarrow>
             add sigs ''LOW_FIELD_COVERAGE''
               \<lparr>d_severity = Some (ci_severity issue), d_action = Some (ci_action issue),
                d_payload = CoverageIssue issue\<rparr>)
      else sigs)"

definition structural_anomaly_step ::
  "ValidationConfig \<Rightarrow> OCRResult \<Rightarrow> RiskSignal list \<Rightarrow> RiskSignal list" where
  "structural_anomaly_step cfg docai_result sigs =
     (if get_or (trigger_rules cfg) ''structural_anomaly'' True
      then
        let structural_issues = check_structural_anomaly docai_result
        in if structural_issues \<noteq> []
           then add sigs ''STRUCTURAL_ANOMALY''
                  \<lparr>d_severity = Some ''MEDIUM'', d_action = Some ''REVIEW_RECOMMENDED'',
                   d_payload = StructuralIssues structural_issues\<rparr>
           else sigs
      else sigs)"

definition logic_failure_step ::
  "ValidationConfig \<Rightarrow> OCRResult \<Rightarrow> RiskSignal list \<Rightarrow> RiskSignal list" where
  "logic_failure_step cfg docai_result sigs =
     (if get_or (trigger_rules cfg) ''logic_failure'' True
      then
        let logic_errors = quick_logic_check docai_result
        in if logic_errors \<noteq> []
           then add sigs ''LOGIC_FAILURE''
                  \<lparr>d_severity = Some ''CRITICAL'', d_action = Some ''MANUAL_REVIEW'',
                   d_payload = LogicErrors logic_errors\<rparr>
           else sigs
      else sigs)"

definition unknown_template_step ::
  "ValidationConfig \<Rightarrow> OCRResult \<Rightarrow> RiskSignal list \<Rightarrow> RiskSignal list" where
  "unknown_template_step cfg docai_result sigs =
     (if get_or (trigger_rules cfg) ''unknown_template'' True
      then
        let template_confidence = detect_bank_template docai_result
        in if template_confidence < 7 / 10
           then add sigs ''UNKNOWN_TEMPLATE''
                  \<lparr>d_severity = Some ''MEDIUM'', d_action = Some ''REVIEW_RECOMMENDED'',
                   d_payload = TemplateConfidence template_confidence\<rparr>
           else sigs
      else sigs)"

definition detect_signals :: "ValidationConfig \<Rightarrow> OCRResult \<Rightarrow> RiskSignal list" where
  "detect_signals cfg docai_result =
     (if rows docai_result = []
      then add [] ''NO_ROWS''
             \<lparr>d_severity = Some ''CRITICAL'', d_action = Some ''MANUAL_REVIEW'',
              d_payload = NoPayload\<rparr>
      else
        unknown_template_step cfg docai_result
          (logic_failure_step cfg docai_result
             (structural_anomaly_step cfg docai_result
                (low_coverage_step cfg docai_result
                   (low_confidence_step cfg docai_result [])))))"

subsection \<open>The error pattern database (\<^verbatim>\<open>validators/error_pattern_db.py\<close>)\<close>

record ErrorPattern =
  ep_name :: string
  ep_description :: string
  ep_severity :: string
  ep_field :: string
  pattern_type :: string
  pattern_value :: string
  ep_fix_suggestion :: string

text \<open>What \<^verbatim>\<open>_get_field_value\<close> can return: a string, a Decimal or a date.\<close>

datatype field_value = StrValue string | DecimalValue decimal | DateValue date

text \<open>
  \<open>pm_value\<close> holds the field value that the source renders with \<^verbatim>\<open>str(field_value)\<close>.
\<close>

record PatternMatch =
  pattern_name :: string
  pm_row :: nat
  pm_field :: string
  pm_value :: field_value
  pm_severity :: string
  pm_fix_suggestion :: string

text \<open>
  Python's library, as far as the matcher calls it: \<^verbatim>\<open>re.search\<close> (pattern, then
  subject) and the rendering \<^verbatim>\<open>str(v)\<close> of a Decimal or a date. Both are parameters;
  \<^verbatim>\<open>str\<close> of a string is the string.
\<close>

record library =
  re_search :: "string \<Rightarrow> string \<Rightarrow> bool"
  render :: "field_value \<Rightarrow> string"

definition py_str :: "library \<Rightarrow> field_value \<Rightarrow> string" where
  "py_str lib v = (case v of StrValue s \<Rightarrow> s | _ \<Rightarrow> render lib v)"

definition get_field_value :: "TransactionRow \<Rightarrow> string \<Rightarrow> field_value option" where
  "get_field_value r f =
     (let field_map =
            map_of
              [(''amount'',
                  map_option DecimalValue (if deposit r \<noteq> None then deposit r else withdrawal r)),
               (''amount_raw'', Some (StrValue (amount_raw r))),
               (''date'', map_option DateValue (transaction_date r)),
               (''date_raw'', Some (StrValue (date_raw r))),
               (''description'', Some (StrValue (description r))),
               (''balance'', map_option DecimalValue (balance r))]
      in case field_map f of None \<Rightarrow> None | Some v \<Rightarrow> v)"

definition is_digit :: "char \<Rightarrow> bool" where
  "is_digit c = (let n = (of_char c :: nat) in 48 \<le> n \<and> n \<le> 57)"

text \<open>
  \<^verbatim>\<open>re.match(r'^\d{1,2}/\d{1,2}/\d{4}$', v)\<close>, written out: one or two digits, a slash,
  one or two digits, a slash, four digits, and then the end of the string or one last
  newline.
\<close>

definition ambiguous_date :: "string \<Rightarrow> bool" where
  "ambiguous_date v =
     (let d1 = takeWhile is_digit v; r1 = dropWhile is_digit v
      in length d1 \<in> {1, 2} \<and>
         (case r1 of
            [] \<Rightarrow> False
          | c1 # t1 \<Rightarrow>
              c1 = CHR ''/'' \<and>
              (let d2 = takeWhile is_digit t1; r2 = dropWhile is_digit t1
               in length d2 \<in> {1, 2} \<and>
                  (case r2 of
                     [] \<Rightarrow> False
                   | c2 # t2 \<Rightarrow>
                       c2 = CHR ''/'' \<and>
                       (let d3 = takeWhile is_digit t2; r3 = dropWhile is_digit t2
                        in length d3 = 4 \<and> (r3 = [] \<or> r3 = [CHR 0x0A]))))))"

definition format_checks :: "string \<Rightarrow> (string \<Rightarrow> bool) option" where
  "format_checks =
     map_of
       [(''has_parentheses'', \<lambda>v. CHR ''('' \<in> set v \<and> CHR '')'' \<in> set v),
        (''missing_dollar_sign'', \<lambda>v. CHR ''$'' \<notin> set v),
        (''has_comma_as_decimal'', \<lambda>v. CHR '','' \<in> set v \<and> CHR ''.'' \<notin> set v),
        (''ambiguous_date'', ambiguous_date),
        (''has_letter_o'', \<lambda>v. CHR ''O'' \<in> set (upper v)),
        (''has_letter_l'', \<lambda>v. CHR ''l'' \<in> set (lower v))]"

definition check_format :: "string \<Rightarrow> string \<Rightarrow> bool" where
  "check_format v format_type =
     (case format_checks format_type of None \<Rightarrow> False | Some checker \<Rightarrow> checker v)"

definition check_value :: "field_value \<Rightarrow> string \<Rightarrow> bool" where
  "check_value v check_type =
     (if check_type = ''negative''
      then (case v of DecimalValue d \<Rightarrow> dec_less d (dec_of_int 0) | _ \<Rightarrow> False)
      else False)"

definition match_pattern ::
  "library \<Rightarrow> ErrorPattern \<Rightarrow> TransactionRow \<Rightarrow> nat \<Rightarrow> PatternMatch list" where
  "match_pattern lib pattern r row_idx =
     (case get_field_value r (ep_field pattern) of
        None \<Rightarrow> []
      | Some field_value \<Rightarrow>
          let is_match =
                (if pattern_type pattern = ''regex''
                 then re_search lib (pattern_value pattern) (py_str lib field_value)
                 else if pattern_type pattern = ''format_check''
                 then check_format (py_str lib field_value) (pattern_value pattern)
                 else if pattern_type pattern = ''value_check''
                 then check_value field_value (pattern_value pattern)
                 else False)
          in if is_match
             then [\<lparr>pattern_name = ep_name pattern, pm_row = row_idx, pm_field = ep_field pattern,
                    pm_value = field_value, pm_severity = ep_severity pattern,
                    pm_fix_suggestion = ep_fix_suggestion pattern\<rparr>]
             else [])"

text \<open>\<^verbatim>\<open>ErrorPatternDatabase.match\<close>, for the catalog \<open>patterns\<close> the database holds.\<close>

definition match_patterns ::
  "library \<Rightarrow> ErrorPattern list \<Rightarrow> OCRResult \<Rightarrow> PatternMatch list" where
  "match_patterns lib patterns result =
     concat (map (\<lambda>(row_idx, r). concat (map (\<lambda>pattern. match_pattern lib pattern r row_idx) patterns))
       (enumerate 0 (rows result)))"

definition error_pattern ::
  "string \<Rightarrow> string \<Rightarrow> string \<Rightarrow> string \<Rightarrow> string \<Rightarrow> string \<Rightarrow> string \<Rightarrow> ErrorPattern" where
  "error_pattern n d s f ty v fx =
     \<lparr>ep_name = n, ep_description = d, ep_severity = s, ep_field = f, pattern_type = ty,
      pattern_value = v, ep_fix_suggestion = fx\<rparr>"

definition get_default_patterns :: "ErrorPattern list" where
  "get_default_patterns =
     [error_pattern ''bracket_negative_misread''
        ''Bracketed negative number possibly misread as positive'' ''HIGH'' ''amount_raw''
        ''format_check'' ''has_parentheses'' ''Verify amount is negative'',
      error_pattern ''dollar_sign_missing'' ''Amount missing dollar sign'' ''MEDIUM''
        ''amount_raw'' ''format_check'' ''missing_dollar_sign'' ''Verify amount parsing'',
      error_pattern ''comma_decimal_confusion'' ''Comma possibly misread as decimal point''
        ''HIGH'' ''amount_raw'' ''format_check'' ''has_comma_as_decimal''
        ''Check if European format (1.234,56)'',
      error_pattern ''date_ambiguity'' ''Date format ambiguous (MM/DD vs DD/MM)'' ''MEDIUM''
        ''date_raw'' ''format_check'' ''ambiguous_date'' ''Verify month/day order'',
      error_pattern ''zero_o_confusion'' ''Letter O possibly confused with zero'' ''HIGH''
        ''amount_raw'' ''format_check'' ''has_letter_o'' ''Check if O should be 0'',
      error_pattern ''one_l_confusion'' ''Letter l possibly confused with 1'' ''HIGH''
        ''amount_raw'' ''format_check'' ''has_letter_l'' ''Check if l should be 1'',
      error_pattern ''negative_deposit'' ''Deposit amount is negative'' ''CRITICAL'' ''amount''
        ''value_check'' ''negative'' ''Deposits should be positive'']"


subsection \<open>The validation report (\<^verbatim>\<open>models/validation_report.py\<close>)\<close>

record risk_counts =
  critical :: int
  high :: int
  medium :: int
  low :: int

record risk_details =
  counts :: risk_counts
  penalty :: rat

datatype component_details =
    SourceDetails string
  | CoverageDetails "(string \<times> rat) list"
  | RuleDetails int int
  | RiskDetails risk_details

text \<open>
  A component dictionary; its key \<^verbatim>\<open>'available'\<close>, which \<^verbatim>\<open>_component\<close> sets to
  \<^verbatim>\<open>score is not None\<close>, is the function \<open>available\<close>.
\<close>

record component =
  key :: string
  label :: string
  score :: "rat option"
  weight :: rat
  component_info :: component_details

definition available :: "component \<Rightarrow> bool" where
  "available c = (score c \<noteq> None)"

record metrics =
  engine_confidence_metric :: rat
  field_coverage_metric :: "(string \<times> rat) list"
  rule_pass_rate_metric :: rat
  risk_signals_metric :: risk_details

record ValidationReport =
  report_document_id :: string
  validation_status :: string
  risk_signals :: "risk_summary option"
  rule_violations :: "RuleViolation list"
  total_checks :: int
  passed_checks :: int
  failed_checks :: int
  warnings :: int
  rule_pass_rate :: rat
  report_overall_confidence :: rat
  confidence_label :: string
  confidence_components :: "component list"
  confidence_notes :: "string list"
  confidence_metrics :: "metrics option"
  output_files :: "(string \<times> string) list option"
  pattern_matches :: "PatternMatch list option"

text \<open>The constructor call of the pipeline: every other field at its default.\<close>

definition new_report :: "string \<Rightarrow> string \<Rightarrow> risk_summary option \<Rightarrow> ValidationReport" where
  "new_report doc status risk =
     \<lparr>report_document_id = doc, validation_status = status, risk_signals = risk,
      rule_violations = [], total_checks = 0, passed_checks = 0, failed_checks = 0,
      warnings = 0, rule_pass_rate = 0, report_overall_confidence = 0,
      confidence_label = ''Low'', confidence_components = [], confidence_notes = [],
      confidence_metrics = None, output_files = None, pattern_matches = None\<rparr>"

definition add_violations :: "ValidationReport \<Rightarrow> RuleViolation list \<Rightarrow> ValidationReport" where
  "add_violations rep violations =
     rep\<lparr>rule_violations := rule_violations rep @ violations,
         failed_checks := failed_checks rep + int (length violations)\<rparr>"

definition calculate_summary :: "ValidationReport \<Rightarrow> ValidationReport" where
  "calculate_summary rep =
     (let r1 =
            (if total_checks rep = 0
             then rep\<lparr>total_checks := passed_checks rep + failed_checks rep\<rparr>
             else
               let minimum_total = passed_checks rep + failed_checks rep
               in if total_checks rep < minimum_total
                  then rep\<lparr>total_checks := minimum_total\<rparr>
                  else rep);
          critical_count =
            length (filter (\<lambda>v. severity v = ''CRITICAL'') (rule_violations r1));
          high_count = length (filter (\<lambda>v. severity v = ''HIGH'') (rule_violations r1));
          r2 =
            (if 0 < critical_count then r1\<lparr>validation_status := ''NEEDS_REVIEW''\<rparr>
             else if 0 < high_count \<or>
                     (of_int (total_checks r1) :: rat) * (1 / 10) < of_int (failed_checks r1)
             then r1\<lparr>validation_status := ''REVIEW_RECOMMENDED''\<rparr>
             else r1\<lparr>validation_status := ''APPROVED''\<rparr>)
      in if 0 < total_checks r2
         then
           let r3 = r2\<lparr>rule_pass_rate := of_int (passed_checks r2) / of_int (total_checks r2)\<rparr>
           in if report_overall_confidence r3 = 0
              then r3\<lparr>report_overall_confidence := rule_pass_rate r3\<rparr>
              else r3
         else r2\<lparr>rule_pass_rate := 0\<rparr>)"

subsection \<open>The confidence scorer (\<^verbatim>\<open>validators/confidence_scorer.py\<close>)\<close>

record assessment =
  assessed_score :: rat
  assessed_label :: string
  components :: "component list"
  assessed_metrics :: metrics
  assessed_notes :: "string list"

definition make_component ::
  "string \<Rightarrow> string \<Rightarrow> rat option \<Rightarrow> rat \<Rightarrow> component_details \<Rightarrow> component" where
  "make_component k l s w d = \<lparr>key = k, label = l, score = s, weight = w, component_info = d\<rparr>"

definition weighted_score :: "component list \<Rightarrow> rat" where
  "weighted_score cs =
     (let usable = filter (\<lambda>c. available c \<and> 0 < weight c) cs;
          total_weight = sum_list (map weight usable)
      in if total_weight \<le> 0 then 0
         else
           let s = sum_list (map (\<lambda>c. the (score c) * weight c) usable) / total_weight
           in max 0 (min 1 s))"

definition label_of :: "rat \<Rightarrow> string" where
  "label_of s = (if 85 / 100 \<le> s then ''High'' else if 7 / 10 \<le> s then ''Medium'' else ''Low'')"

definition engine_confidence :: "OCRResult \<Rightarrow> rat" where
  "engine_confidence result =
     (if 0 < overall_confidence result then overall_confidence result
      else
        let confidences =
              concat (map (\<lambda>r. filter (\<lambda>v. v \<noteq> 0)
                                  [date_confidence r, amount_confidence r, balance_confidence r])
                (rows result))
        in if confidences = [] then 0
           else sum_list confidences / of_nat (length confidences))"

text \<open>
  The engine-quality component as the specification words it, over the four per-field
  confidences of a row (date, description, amount, balance); \<open>engine_confidence\<close> above
  is the source's.
\<close>

definition spec_engine_confidence :: "OCRResult \<Rightarrow> rat" where
  "spec_engine_confidence result =
     (if 0 < overall_confidence result then overall_confidence result
      else
        let confidences =
              filter (\<lambda>v. v \<noteq> 0)
                (concat (map (\<lambda>r. [date_confidence r, description_confidence r,
                                     amount_confidence r, balance_confidence r])
                   (rows result)))
        in if confidences = [] then 0
           else sum_list confidences / of_nat (length confidences))"

definition field_completeness :: "OCRResult \<Rightarrow> rat \<times> (string \<times> rat) list" where
  "field_completeness result =
     (if rows result = []
      then (0, [(''transaction_date'', 0), (''amount'', 0), (''balance'', 0)])
      else
        let total_rows = (of_nat (length (rows result)) :: rat);
            date_count = length (filter (\<lambda>r. transaction_date r \<noteq> None) (rows result));
            amount_count =
              length (filter (\<lambda>r. deposit r \<noteq> None \<or> withdrawal r \<noteq> None) (rows result));
            balance_count = length (filter (\<lambda>r. balance r \<noteq> None) (rows result));
            coverage =
              [(''transaction_date'', of_nat date_count / total_rows),
               (''amount'', of_nat amount_count / total_rows),
               (''balance'', of_nat balance_count / total_rows)]
        in (sum_list (map snd coverage) / of_nat (length coverage), coverage))"

definition risk_signal_score :: "risk_summary option \<Rightarrow> rat \<times> risk_details" where
  "risk_signal_score risk =
     (let cnt =
            (case risk of
               None \<Rightarrow> \<lparr>critical = 0, high = 0, medium = 0, low = 0\<rparr>
             | Some d \<Rightarrow>
                 \<lparr>critical = critical_count d, high = high_count d, medium = medium_count d,
                  low = low_count d\<rparr>);
          p = of_int (critical cnt) * (2 / 10) + of_int (high cnt) * (1 / 10) +
              of_int (medium cnt) * (5 / 100) + of_int (low cnt) * (2 / 100)
      in (max 0 (1 - min 1 p), \<lparr>counts = cnt, penalty = p\<rparr>))"

definition assess :: "ValidationConfig \<Rightarrow> OCRResult \<Rightarrow> ValidationReport \<Rightarrow> assessment" where
  "assess cfg primary rep =
     (let weights = confidence_weights cfg;
          engine_score = engine_confidence primary;
          c1 = make_component ''engine_quality'' ''Primary engine quality'' (Some engine_score)
                 (get_or weights ''engine_quality'' (25 / 100))
                 (SourceDetails ''Document AI page quality score'');
          completeness = field_completeness primary;
          c2 = make_component ''field_completeness'' ''Critical field coverage''
                 (Some (fst completeness)) (get_or weights ''field_completeness'' (20 / 100))
                 (CoverageDetails (snd completeness));
          c3 = make_component ''rule_consistency'' ''Hard-rule consistency''
                 (Some (rule_pass_rate rep)) (get_or weights ''rule_consistency'' (25 / 100))
                 (RuleDetails (total_checks rep) (failed_checks rep));
          risk = risk_signal_score (risk_signals rep);
          c4 = make_component ''risk_signals'' ''Risk signal penalty'' (Some (fst risk))
                 (get_or weights ''risk_signals'' (10 / 100)) (RiskDetails (snd risk));
          cs = [c1, c2, c3, c4];
          overall_score = weighted_score cs
      in \<lparr>assessed_score = overall_score,
          assessed_label = label_of overall_score,
          components = cs,
          assessed_metrics =
            \<lparr>engine_confidence_metric = engine_score,
             field_coverage_metric = snd completeness,
             rule_pass_rate_metric = rule_pass_rate rep,
             risk_signals_metric = snd risk\<rparr>,
          assessed_notes = []\<rparr>)"

subsection \<open>The orchestrator (\<^verbatim>\<open>BankStatementPipeline.process\<close> in \<^verbatim>\<open>core/pipeline.py\<close>)\<close>

text \<open>
  The validation steps of \<^verbatim>\<open>process\<close>, from the extracted table to the report. The
  OCR call before them and the rendering of files after them are outside the model;
  \<open>patterns\<close> is the catalog the pattern database holds. The steps up to
  \<^verbatim>\<open>calculate_summary()\<close> are \<open>report_before_scoring\<close>; \<open>process\<close> then attaches the
  assessment of the confidence scorer.
\<close>

definition report_before_scoring ::
  "library \<Rightarrow> ValidationConfig \<Rightarrow> date \<Rightarrow> ErrorPattern list \<Rightarrow> OCRResult \<Rightarrow> ValidationReport" where
  "report_before_scoring lib cfg today patterns primary_result =
     (let risk = detect_signals cfg primary_result;
          violations = validate today primary_result;
          matches = match_patterns lib patterns primary_result;
          r0 = new_report (document_id primary_result) ''APPROVED'' (Some (to_dict risk));
          r1 = add_violations r0 violations;
          r2 = r1\<lparr>warnings := int (length matches), pattern_matches := Some matches\<rparr>;
          r3 = r2\<lparr>total_checks := count_checks primary_result\<rparr>;
          r4 = r3\<lparr>passed_checks := max (total_checks r3 - failed_checks r3) 0\<rparr>
      in calculate_summary r4)"

definition process ::
  "library \<Rightarrow> ValidationConfig \<Rightarrow> date \<Rightarrow> ErrorPattern list \<Rightarrow> OCRResult \<Rightarrow> ValidationReport" where
  "process lib cfg today patterns primary_result =
     (let r5 = report_before_scoring lib cfg today patterns primary_result;
          confidence = assess cfg primary_result r5
      in r5\<lparr>report_overall_confidence := assessed_score confidence,
            confidence_label := assessed_label confidence,
            confidence_components := components confidence,
            confidence_notes := assessed_notes confidence,
            confidence_metrics := Some (assessed_metrics confidence)\<rparr>)"

subsection \<open>Example inputs\<close>

text \<open>
  \<^verbatim>\<open>TransactionRow(transaction_date=None, description="")\<close> and
  \<^verbatim>\<open>OCRResult(document_id="", engine="document_ai", processed_at="")\<close>: every other
  field at the default of the dataclass.
\<close>

definition blank_row :: TransactionRow where
  "blank_row =
     \<lparr>transaction_date = None, description = [], deposit = None, withdrawal = None,
      balance = None, posting_date = None, reference_number = None, date_confidence = 0,
      description_confidence = 0, amount_confidence = 0, balance_confidence = 0, bbox = None,
      page_number = 1, row_index = 0, amount_raw = [], date_raw = []\<rparr>"

definition blank_table :: OCRResult where
  "blank_table =
     \<lparr>document_id = [], engine = ''document_ai'', processed_at = [], rows = [], header = [],
      header_detected = False, header_confidence = 0, opening_balance = None,
      closing_balance = None, page_count = 1, total_rows = 0, overall_confidence = 0\<rparr>"

text \<open>A library whose regular expressions match nothing and whose rendering is empty.\<close>

definition plain_library :: library where
  "plain_library = \<lparr>re_search = (\<lambda>p s. False), render = (\<lambda>v. [])\<rparr>"

text \<open>
  The rows of the running-balance examples: a row with balance 100.00, and a row with
  deposit 50.00, withdrawal 0 and a given balance.
\<close>

definition row_balance_100 :: TransactionRow where
  "row_balance_100 = blank_row\<lparr>balance := Some (Decimal 10000 (- 2))\<rparr>"

definition row_deposit_50 :: "decimal \<Rightarrow> TransactionRow" where
  "row_deposit_50 b =
     blank_row\<lparr>deposit := Some (Decimal 5000 (- 2)), withdrawal := Some (Decimal 0 0),
               balance := Some b\<rparr>"

definition table_of :: "TransactionRow list \<Rightarrow> OCRResult" where
  "table_of rs = blank_table\<lparr>rows := rs\<rparr>"

section \<open>Properties\<close>


subsection \<open>The value of a decimal\<close>

lemma dec_fix_id: "ndigits (nat \<bar>coeff d\<bar>) \<le> prec \<Longrightarrow> dec_fix d = d"
  by (simp add: dec_fix_def Let_def)

lemma dec_val_powi: "dec_val d = of_int (coeff d) * 10 powi expo d"
  by (simp add: dec_val_def power_int_def field_simps power_inverse)

lemma dec_align_val:
  assumes "dec_align a b = (m, n)"
  shows "of_int m * 10 powi min (expo a) (expo b) = dec_val a"
    and "of_int n * 10 powi min (expo a) (expo b) = dec_val b"
proof -
  have p: "(10::rat) ^ nat (e - f) * 10 powi f = 10 powi e" if "f \<le> e" for e f :: int
  proof -
    have "(10::rat) ^ nat (e - f) = 10 powi (e - f)" using that by (simp add: power_int_def)
    then show ?thesis by (simp add: power_int_add [symmetric])
  qed
  have m: "m = coeff a * 10 ^ nat (expo a - min (expo a) (expo b))"
    and n: "n = coeff b * 10 ^ nat (expo b - min (expo a) (expo b))"
    using assms by (auto simp: dec_align_def Let_def)
  show "of_int m * 10 powi min (expo a) (expo b) = dec_val a"
    unfolding m dec_val_powi using p [of "min (expo a) (expo b)" "expo a"]
    by (simp add: mult.assoc)
  show "of_int n * 10 powi min (expo a) (expo b) = dec_val b"
    unfolding n dec_val_powi using p [of "min (expo a) (expo b)" "expo b"]
    by (simp add: mult.assoc)
qed

lemma dec_val_add: "unrounded a b \<Longrightarrow> dec_val (dec_add a b) = dec_val a + dec_val b"
proof -
  assume u: "unrounded a b"
  obtain m n where mn: "dec_align a b = (m, n)" by (cases "dec_align a b")
  have "dec_add a b = Decimal (m + n) (min (expo a) (expo b))"
    using u mn by (simp add: dec_add_def unrounded_def dec_fix_id)
  then have "dec_val (dec_add a b) = of_int (m + n) * 10 powi min (expo a) (expo b)"
    by (simp add: dec_val_powi)
  also have "\<dots> = dec_val a + dec_val b"
    using dec_align_val [OF mn] by (simp add: algebra_simps)
  finally show ?thesis .
qed

lemma dec_val_neg: "dec_val (dec_neg a) = - dec_val a"
  by (simp add: dec_val_powi dec_neg_def)

lemma dec_val_sub:
  "unrounded a (dec_neg b) \<Longrightarrow> dec_val (dec_sub a b) = dec_val a - dec_val b"
  by (simp add: dec_sub_def dec_val_add dec_val_neg)

lemma dec_less_val: "dec_less a b \<longleftrightarrow> dec_val a < dec_val b"
proof -
  obtain m n where mn: "dec_align a b = (m, n)" by (cases "dec_align a b")
  have pos: "(0::rat) < 10 powi min (expo a) (expo b)" by simp
  have "dec_val a < dec_val b \<longleftrightarrow>
    of_int m * 10 powi min (expo a) (expo b) < of_int n * (10::rat) powi min (expo a) (expo b)"
    using dec_align_val [OF mn] by simp
  also have "\<dots> \<longleftrightarrow> m < n"
    unfolding mult_less_cancel_right_pos [OF pos] by simp
  finally show ?thesis using mn by (simp add: dec_less_def)
qed

lemma dec_eq_val: "dec_eq a b \<longleftrightarrow> dec_val a = dec_val b"
proof -
  obtain m n where mn: "dec_align a b = (m, n)" by (cases "dec_align a b")
  have "dec_val a = dec_val b \<longleftrightarrow>
    of_int m * 10 powi min (expo a) (expo b) = of_int n * (10::rat) powi min (expo a) (expo b)"
    using dec_align_val [OF mn] by simp
  also have "\<dots> \<longleftrightarrow> m = n" by simp
  finally show ?thesis using mn by (simp add: dec_eq_def)
qed

lemma dec_val_abs_sub:
  assumes "unrounded a (dec_neg b)"
  shows "dec_val (dec_abs (dec_sub a b)) = \<bar>dec_val a - dec_val b\<bar>"
proof -
  obtain m n where mn: "dec_align a (dec_neg b) = (m, n)" by (cases "dec_align a (dec_neg b)")
  have s: "dec_sub a b = Decimal (m + n) (min (expo a) (expo (dec_neg b)))"
    using assms mn by (simp add: dec_sub_def dec_add_def unrounded_def dec_fix_id)
  have "dec_abs (dec_sub a b) = Decimal \<bar>m + n\<bar> (min (expo a) (expo (dec_neg b)))"
    using assms mn unfolding s by (simp add: dec_abs_def unrounded_def dec_fix_id)
  then have "dec_val (dec_abs (dec_sub a b)) = \<bar>dec_val (dec_sub a b)\<bar>"
    unfolding s by (simp add: dec_val_powi abs_mult)
  then show ?thesis using assms by (simp add: dec_val_sub)
qed

subsection \<open>Counting violations\<close>

lemma length_concat_le:
  "(\<And>a. a \<in> set xs \<Longrightarrow> length (f a) \<le> g a) \<Longrightarrow> length (concat (map f xs)) \<le> sum_list (map g xs)"
proof (induction xs)
  case Nil
  then show ?case by simp
next
  case (Cons a xs)
  have "length (f a) \<le> g a" using Cons.prems by simp
  moreover have "length (concat (map f xs)) \<le> sum_list (map g xs)"
    using Cons by simp
  ultimately show ?case by simp
qed

lemma sum_list_indicator:
  "sum_list (map (\<lambda>a. if P a then 1 else 0) xs) = length (filter P xs)"
  by (induction xs) auto

lemma length_mismatch: "length (mismatch r i e a) \<le> 1"
  by (simp add: mismatch_def Let_def)

lemma length_date_row:
  "length (date_row_violations today rs idx r) \<le> (if idx = 0 then 1 else 2)"
  by (auto simp: date_row_violations_def split: option.splits)

lemma sum_enumerate_pos:
  "0 < k \<Longrightarrow> sum_list (map (\<lambda>(idx, r). if idx = 0 then 1 else 2) (enumerate k rs)) = 2 * length rs"
  by (induction rs arbitrary: k) auto

lemma sum_enumerate_zero:
  "rs \<noteq> [] \<Longrightarrow>
   sum_list (map (\<lambda>(idx, r). if idx = (0::nat) then 1 else 2) (enumerate 0 rs)) = 2 * length rs - 1"
  by (cases rs) (auto simp: sum_enumerate_pos)

lemma length_validate_date_range:
  assumes "rows t \<noteq> []"
  shows "length (validate_date_range today t) \<le> 2 * length (rows t) - 1"
proof -
  have "length (validate_date_range today t)
        \<le> sum_list (map (\<lambda>(idx, r). if idx = 0 then 1 else 2) (enumerate 0 (rows t)))"
    unfolding validate_date_range_def
    by (rule length_concat_le) (auto simp: length_date_row)
  then show ?thesis using sum_enumerate_zero [OF assms] by simp
qed

lemma length_format_violation:
  "length (format_violation idx f a) \<le> (if a \<noteq> None then 1 else 0)"
  by (auto simp: format_violation_def split: option.splits)

lemma length_presence_violation: "length (presence_violation idx r) \<le> 1"
  by (auto simp: presence_violation_def split: option.splits)

lemma length_amount_row: "length (amount_row_violations idx r) \<le> Suc (present_fields r)"
  using length_presence_violation [of idx r]
    length_format_violation [of idx "''deposit''" "deposit r"]
    length_format_violation [of idx "''withdrawal''" "withdrawal r"]
    length_format_violation [of idx "''balance''" "balance r"]
  by (simp add: amount_row_violations_def present_fields_def split: if_splits)

lemma sum_enumerate_snd:
  "sum_list (map (\<lambda>(idx, r). h r) (enumerate k rs)) = sum_list (map h rs)"
  by (induction rs arbitrary: k) auto

lemma sum_list_Suc: "sum_list (map (\<lambda>a. Suc (h a)) xs) = length xs + sum_list (map h xs)"
  by (induction xs) auto

lemma length_validate_amount_format:
  "length (validate_amount_format t) \<le> length (rows t) + sum_list (map present_fields (rows t))"
proof -
  have "length (validate_amount_format t)
        \<le> sum_list (map (\<lambda>(idx, r). Suc (present_fields r)) (enumerate 0 (rows t)))"
    unfolding validate_amount_format_def
    by (rule length_concat_le) (auto simp: length_amount_row)
  also have "\<dots> = sum_list (map (\<lambda>r. Suc (present_fields r)) (rows t))"
    by (rule sum_enumerate_snd)
  also have "\<dots> = length (rows t) + sum_list (map present_fields (rows t))"
    by (rule sum_list_Suc)
  finally show ?thesis .
qed

lemma length_running_pair:
  "length (running_pair rs i) \<le> (if balance (rs ! (i - 1)) \<noteq> None \<and> balance (rs ! i) \<noteq> None then 1 else 0)"
  using length_mismatch by (auto simp: running_pair_def Let_def split: option.splits)

lemma length_validate_running_balance:
  "length (validate_running_balance t)
   \<le> length (filter (\<lambda>i. balance (rows t ! (i - 1)) \<noteq> None \<and> balance (rows t ! i) \<noteq> None)
        [1..<length (rows t)])"
proof -
  have "length (validate_running_balance t)
        \<le> sum_list (map (\<lambda>i. if balance (rows t ! (i - 1)) \<noteq> None \<and> balance (rows t ! i) \<noteq> None
                               then 1 else 0) [1..<length (rows t)])"
    unfolding validate_running_balance_def
    by (rule length_concat_le) (rule length_running_pair)
  then show ?thesis by (simp only: sum_list_indicator)
qed

lemma length_validate_overall_balance:
  "length (validate_overall_balance t)
   \<le> (if opening_balance t \<noteq> None \<and> closing_balance t \<noteq> None then 1 else 0)"
  using length_mismatch by (auto simp: validate_overall_balance_def Let_def split: option.splits)

lemma validate_le_count_checks: "int (length (validate today t)) \<le> count_checks t"
proof (cases "rows t = []")
  case True
  then show ?thesis by (simp add: validate_def count_checks_def violation_def)
next
  case False
  define n where "n = length (rows t)"
  define a where "a = length (validate_date_range today t)"
  define b where "b = length (validate_amount_format t)"
  define c where "c = length (validate_running_balance t)"
  define d where "d = length (validate_overall_balance t)"
  define s where "s = sum_list (map present_fields (rows t))"
  define p where "p = length (filter (\<lambda>i. balance (rows t ! (i - 1)) \<noteq> None \<and>
    balance (rows t ! i) \<noteq> None) [1..<length (rows t)])"
  define ov where "ov = (if opening_balance t \<noteq> None \<and> closing_balance t \<noteq> None then 1 else 0 :: nat)"
  have n: "0 < n" using False by (simp add: n_def)
  have "a \<le> 2 * n - 1"
    unfolding a_def n_def by (rule length_validate_date_range [OF False])
  then have a: "int a \<le> int n + (if 1 < n then int n - 1 else 0)"
    using n by (auto split: if_splits)
  have b: "b \<le> n + s"
    unfolding b_def n_def s_def by (rule length_validate_amount_format)
  have c: "c \<le> p"
    unfolding c_def p_def by (rule length_validate_running_balance)
  have d: "d \<le> ov"
    unfolding d_def ov_def by (rule length_validate_overall_balance)
  have v: "int (length (validate today t)) = int a + int b + int c + int d"
    using False by (simp add: validate_def a_def b_def c_def d_def)
  have k: "count_checks t =
    int n + (if 1 < n then int n - 1 else 0) + int n + int s + int p + int ov"
    using False by (simp add: count_checks_def Let_def n_def s_def p_def ov_def)
  show ?thesis unfolding v k using a b c d by linarith
qed

lemma adjacent_pairs:
  "map (\<lambda>i. (rs ! (i - 1), rs ! i)) [1..<length rs] = zip rs (tl rs)"
proof (rule nth_equalityI)
  show "length (map (\<lambda>i. (rs ! (i - 1), rs ! i)) [1..<length rs]) = length (zip rs (tl rs))"
    by simp
next
  fix i
  assume "i < length (map (\<lambda>i. (rs ! (i - 1), rs ! i)) [1..<length rs])"
  then have i: "i < length rs - 1" by simp
  then show "map (\<lambda>i. (rs ! (i - 1), rs ! i)) [1..<length rs] ! i = zip rs (tl rs) ! i"
    by (simp add: nth_tl)
qed

lemma running_checks_as_pairs:
  "length (filter (\<lambda>i. balance (rs ! (i - 1)) \<noteq> None \<and> balance (rs ! i) \<noteq> None) [1..<length rs])
   = length (filter (\<lambda>(p, c). balance p \<noteq> None \<and> balance c \<noteq> None) (zip rs (tl rs)))"
proof -
  have "length (filter (\<lambda>(p, c). balance p \<noteq> None \<and> balance c \<noteq> None) (zip rs (tl rs)))
      = length (filter (\<lambda>(p, c). balance p \<noteq> None \<and> balance c \<noteq> None)
          (map (\<lambda>i. (rs ! (i - 1), rs ! i)) [1..<length rs]))"
    by (simp only: adjacent_pairs)
  also have "\<dots> = length (filter (\<lambda>i. balance (rs ! (i - 1)) \<noteq> None \<and> balance (rs ! i) \<noteq> None)
      [1..<length rs])"
    by (simp add: filter_map comp_def)
  finally show ?thesis by simp
qed

lemma present_fields_count:
  "present_fields r = length (filter (\<lambda>a. a \<noteq> None) (monetary_fields r))"
  by (simp add: present_fields_def monetary_fields_def)

lemma present_fields_sum:
  "sum_list (map present_fields rs)
     = length (filter (\<lambda>a. a \<noteq> None) (concat (map monetary_fields rs)))"
  by (induction rs) (simp_all add: present_fields_count)

text \<open>
  Claim C7. For a table with at least one row, \<open>count_checks\<close> is the sum of: one date
  check per row, one monotonicity check per adjacent pair of rows, one amount-presence
  check per row, one format check per monetary field that is present, one
  running-balance check per adjacent pair whose two balances are present, and one
  overall-balance check when the opening and the closing balance are both present. For
  every table, the empty one included, \<open>validate\<close> returns at most \<open>count_checks\<close>
  violations.
\<close>

theorem count_checks_sum_and_bound:
  "(rows t \<noteq> [] \<longrightarrow>
      count_checks t =
        int (length (rows t))
        + int (length (zip (rows t) (tl (rows t))))
        + int (length (rows t))
        + int (length (filter (\<lambda>a. a \<noteq> None) (concat (map monetary_fields (rows t)))))
        + int (length (filter (\<lambda>(p, c). balance p \<noteq> None \<and> balance c \<noteq> None)
                 (zip (rows t) (tl (rows t)))))
        + (if opening_balance t \<noteq> None \<and> closing_balance t \<noteq> None then 1 else 0))
   \<and> int (length (validate today t)) \<le> count_checks t"
proof -
  have "count_checks t =
        int (length (rows t))
        + int (length (zip (rows t) (tl (rows t))))
        + int (length (rows t))
        + int (length (filter (\<lambda>a. a \<noteq> None) (concat (map monetary_fields (rows t)))))
        + int (length (filter (\<lambda>(p, c). balance p \<noteq> None \<and> balance c \<noteq> None)
                 (zip (rows t) (tl (rows t)))))
        + (if opening_balance t \<noteq> None \<and> closing_balance t \<noteq> None then 1 else 0)"
    if ne: "rows t \<noteq> []"
  proof -
    have n: "0 < length (rows t)" using ne by simp
    have z: "int (length (zip (rows t) (tl (rows t))))
           = (if 1 < length (rows t) then int (length (rows t)) - 1 else 0)"
      using n by auto
    show ?thesis
      unfolding z present_fields_sum [symmetric] running_checks_as_pairs [symmetric]
      using ne by (simp add: count_checks_def Let_def)
  qed
  then show ?thesis using validate_le_count_checks by blast
qed

lemma example_count_checks:
  "count_checks (table_of [row_balance_100, row_deposit_50 (Decimal 15003 (- 2))]) = 10"
  by (simp add: count_checks_def table_of_def blank_table_def row_balance_100_def
      row_deposit_50_def blank_row_def present_fields_def Let_def)

theorem count_checks_sum_and_bound_witness:
  "rows (table_of [row_balance_100, row_deposit_50 (Decimal 15003 (- 2))]) \<noteq> []
   \<and> count_checks (table_of [row_balance_100, row_deposit_50 (Decimal 15003 (- 2))])
       = 2 + 1 + 2 + 4 + 1 + 0
   \<and> int (length (validate 0 (table_of [row_balance_100, row_deposit_50 (Decimal 15003 (- 2))])))
       \<le> 10"
proof -
  have ne: "rows (table_of [row_balance_100, row_deposit_50 (Decimal 15003 (- 2))]) \<noteq> []"
    by (simp add: table_of_def)
  show ?thesis
    using ne count_checks_sum_and_bound
      [of "table_of [row_balance_100, row_deposit_50 (Decimal 15003 (- 2))]" 0]
    by (simp add: example_count_checks)
qed

subsection \<open>The running-balance rule\<close>

lemma filter_concat_tagged:
  assumes "\<And>j v. v \<in> set (f j) \<Longrightarrow> tag v = g j" and "inj g" and "distinct xs"
  shows "filter (\<lambda>v. tag v = g i) (concat (map f xs)) = (if i \<in> set xs then f i else [])"
  using assms(3)
proof (induction xs)
  case Nil
  then show ?case by simp
next
  case (Cons j xs)
  have same: "filter (\<lambda>v. tag v = g i) (f i) = f i"
    using assms(1) by (simp add: filter_id_conv)
  have other: "filter (\<lambda>v. tag v = g i) (f j) = []" if "j \<noteq> i"
    using assms(1) [of _ j] assms(2) that by (auto simp: filter_empty_conv dest: injD)
  show ?case
  proof (cases "j = i")
    case True
    then have "i \<notin> set xs" using Cons.prems by simp
    then show ?thesis using Cons True same by simp
  next
    case False
    then show ?thesis using Cons other by auto
  qed
qed

lemma date_row_rules_all:
  "list_all (\<lambda>v. rule v \<noteq> ''RUNNING_BALANCE_MISMATCH'') (date_row_violations today rs idx r)"
  by (simp add: date_row_violations_def violation_def split: option.split)

lemma date_row_rules:
  "\<forall>v\<in>set (date_row_violations today rs idx r). rule v \<noteq> ''RUNNING_BALANCE_MISMATCH''"
  using date_row_rules_all [of today rs idx r] by (simp only: list_all_iff)

lemma date_rules:
  "\<forall>v\<in>set (validate_date_range today t). rule v \<noteq> ''RUNNING_BALANCE_MISMATCH''"
  unfolding validate_date_range_def using date_row_rules by auto

lemma format_rules:
  "\<forall>v\<in>set (format_violation idx f a). rule v \<noteq> ''RUNNING_BALANCE_MISMATCH''"
  by (auto simp: format_violation_def violation_def split: option.split)

lemma presence_rules:
  "\<forall>v\<in>set (presence_violation idx r). rule v \<noteq> ''RUNNING_BALANCE_MISMATCH''"
  by (auto simp: presence_violation_def violation_def split: option.split)

lemma amount_row_rules:
  "\<forall>v\<in>set (amount_row_violations idx r). rule v \<noteq> ''RUNNING_BALANCE_MISMATCH''"
  unfolding amount_row_violations_def using format_rules presence_rules by auto

lemma amount_rules:
  "\<forall>v\<in>set (validate_amount_format t). rule v \<noteq> ''RUNNING_BALANCE_MISMATCH''"
  unfolding validate_amount_format_def using amount_row_rules by auto

lemma overall_rules:
  "\<forall>v\<in>set (validate_overall_balance t). rule v \<noteq> ''RUNNING_BALANCE_MISMATCH''"
  by (auto simp: validate_overall_balance_def mismatch_def violation_def Let_def split: option.split)

lemma running_pair_tagged:
  "\<forall>v\<in>set (running_pair rs j). row v = Some j \<and> rule v = ''RUNNING_BALANCE_MISMATCH''"
  by (auto simp: running_pair_def mismatch_def violation_def Let_def split: option.split)


lemma validate_running_balance_at:
  assumes "0 < i" "i < length (rows t)"
  shows "filter (\<lambda>v. row v = Some i) (validate_running_balance t) = running_pair (rows t) i"
proof -
  have tagged: "row v = Some j" if "v \<in> set (running_pair (rows t) j)" for j v
    using that running_pair_tagged by blast
  have "filter (\<lambda>v. row v = Some i) (concat (map (running_pair (rows t)) [1..<length (rows t)]))
      = (if i \<in> set [1..<length (rows t)] then running_pair (rows t) i else [])"
    using filter_concat_tagged [where f = "running_pair (rows t)" and tag = row and g = Some
        and xs = "[1..<length (rows t)]" and i = i] tagged
    by simp
  then show ?thesis using assms by (simp add: validate_running_balance_def)
qed

lemma running_rules:
  "\<forall>v\<in>set (validate_running_balance t). rule v = ''RUNNING_BALANCE_MISMATCH''"
  unfolding validate_running_balance_def using running_pair_tagged by auto

lemma validate_running_part:
  assumes "rows t \<noteq> []"
  shows "filter (\<lambda>v. rule v = ''RUNNING_BALANCE_MISMATCH'') (validate today t)
       = validate_running_balance t"
proof -
  have a: "filter (\<lambda>v. rule v = ''RUNNING_BALANCE_MISMATCH'') (validate_date_range today t) = []"
    using date_rules [of today t] by (simp add: filter_empty_conv)
  have b: "filter (\<lambda>v. rule v = ''RUNNING_BALANCE_MISMATCH'') (validate_amount_format t) = []"
    using amount_rules [of t] by (simp add: filter_empty_conv)
  have c: "filter (\<lambda>v. rule v = ''RUNNING_BALANCE_MISMATCH'') (validate_overall_balance t) = []"
    using overall_rules [of t] by (simp add: filter_empty_conv)
  have d: "filter (\<lambda>v. rule v = ''RUNNING_BALANCE_MISMATCH'') (validate_running_balance t)
         = validate_running_balance t"
    using running_rules [of t] by (simp add: filter_id_conv)
  show ?thesis using assms by (simp add: validate_def a b c d)
qed

lemma validate_running_at:
  assumes "0 < i" "i < length (rows t)"
  shows "filter (\<lambda>v. rule v = ''RUNNING_BALANCE_MISMATCH'' \<and> row v = Some i) (validate today t)
       = running_pair (rows t) i"
proof -
  have ne: "rows t \<noteq> []" using assms by auto
  have "filter (\<lambda>v. rule v = ''RUNNING_BALANCE_MISMATCH'' \<and> row v = Some i) (validate today t)
      = filter (\<lambda>v. row v = Some i)
          (filter (\<lambda>v. rule v = ''RUNNING_BALANCE_MISMATCH'') (validate today t))"
    by (simp add: conj_commute)
  then show ?thesis
    by (simp only: validate_running_part [OF ne] validate_running_balance_at [OF assms])
qed

lemma dec_val_tolerance: "dec_val tolerance = 2 / 100"
  by (simp add: dec_val_def tolerance_def)

lemma expected_balance_val:
  assumes "exact_running_check pb r cb"
  shows "dec_val (expected_balance pb r) = dec_val pb + or_zero (deposit r) - or_zero (withdrawal r)"
  using assms
  by (auto simp: exact_running_check_def expected_balance_def or_zero_def dec_val_add dec_val_sub
      split: option.splits)

lemma example_mismatch:
  "validate_running_balance (table_of [row_balance_100, row_deposit_50 (Decimal 15003 (- 2))])
   = [\<lparr>rule = ''RUNNING_BALANCE_MISMATCH'', severity = ''CRITICAL'', row = Some 1, field = None,
       expected = Some (Decimal 15000 (- 2)), actual = Some (Decimal 15003 (- 2)),
       difference = Some (Decimal 3 (- 2))\<rparr>]"
  by (simp add: validate_running_balance_def running_pair_def table_of_def blank_table_def
      row_balance_100_def row_deposit_50_def blank_row_def expected_balance_def mismatch_def
      violation_def tolerance_def dec_add_def dec_sub_def dec_neg_def dec_abs_def dec_less_def
      dec_align_def dec_fix_def prec_def Let_def ndigits.simps)

lemma example_within_tolerance:
  "validate_running_balance (table_of [row_balance_100, row_deposit_50 (Decimal 15001 (- 2))]) = []"
  by (simp add: validate_running_balance_def running_pair_def table_of_def blank_table_def
      row_balance_100_def row_deposit_50_def blank_row_def expected_balance_def mismatch_def
      violation_def tolerance_def dec_add_def dec_sub_def dec_neg_def dec_abs_def dec_less_def
      dec_align_def dec_fix_def prec_def Let_def ndigits.simps)

lemma rounding_example_no_violation:
  "validate_running_balance
     (table_of [blank_row\<lparr>balance := Some (Decimal 9999999999999999999999999999 0)\<rparr>,
                blank_row\<lparr>deposit := Some (Decimal 6 (- 1)), balance := Some (Decimal 1 28)\<rparr>])
   = []"
  by (simp add: validate_running_balance_def running_pair_def table_of_def blank_table_def
      blank_row_def expected_balance_def mismatch_def
      violation_def tolerance_def dec_add_def dec_sub_def dec_neg_def dec_abs_def dec_less_def
      dec_align_def dec_fix_def round_half_even_def prec_def Let_def ndigits.simps)

text \<open>
  Claim C3 as stated fails where the context rounds the expected balance: after a
  balance of 9999999999999999999999999999, a row with deposit 0.6 and balance 1E+28 has
  the exact difference 0.4, above the tolerance, yet the sum is rounded to 28 digits, to
  1E+28, and no violation is reported.
\<close>

theorem running_balance_rounding_counterexample:
  "balance (blank_row\<lparr>balance := Some (Decimal 9999999999999999999999999999 0)\<rparr>)
     = Some (Decimal 9999999999999999999999999999 0)
   \<and> balance (blank_row\<lparr>deposit := Some (Decimal 6 (- 1)), balance := Some (Decimal 1 28)\<rparr>)
     = Some (Decimal 1 28)
   \<and> \<bar>dec_val (Decimal 9999999999999999999999999999 0)
        + or_zero (deposit (blank_row\<lparr>deposit := Some (Decimal 6 (- 1)),
                                        balance := Some (Decimal 1 28)\<rparr>))
        - or_zero (withdrawal (blank_row\<lparr>deposit := Some (Decimal 6 (- 1)),
                                           balance := Some (Decimal 1 28)\<rparr>))
        - dec_val (Decimal 1 28)\<bar> = 4 / 10
   \<and> (2 :: rat) / 100 < 4 / 10
   \<and> filter (\<lambda>v. rule v = ''RUNNING_BALANCE_MISMATCH'')
       (validate 0
         (table_of [blank_row\<lparr>balance := Some (Decimal 9999999999999999999999999999 0)\<rparr>,
                    blank_row\<lparr>deposit := Some (Decimal 6 (- 1)),
                              balance := Some (Decimal 1 28)\<rparr>])) = []
   \<and> \<not> exact_running_check (Decimal 9999999999999999999999999999 0)
         (blank_row\<lparr>deposit := Some (Decimal 6 (- 1)), balance := Some (Decimal 1 28)\<rparr>)
         (Decimal 1 28)"
proof -
  have ne: "rows (table_of [blank_row\<lparr>balance := Some (Decimal 9999999999999999999999999999 0)\<rparr>,
                    blank_row\<lparr>deposit := Some (Decimal 6 (- 1)),
                              balance := Some (Decimal 1 28)\<rparr>]) \<noteq> []"
    by (simp add: table_of_def)
  have v: "\<bar>dec_val (Decimal 9999999999999999999999999999 0)
        + or_zero (deposit (blank_row\<lparr>deposit := Some (Decimal 6 (- 1)),
                                        balance := Some (Decimal 1 28)\<rparr>))
        - or_zero (withdrawal (blank_row\<lparr>deposit := Some (Decimal 6 (- 1)),
                                           balance := Some (Decimal 1 28)\<rparr>))
        - dec_val (Decimal 1 28)\<bar> = 4 / 10"
    by (simp add: dec_val_def or_zero_def blank_row_def)
  have x: "\<not> exact_running_check (Decimal 9999999999999999999999999999 0)
         (blank_row\<lparr>deposit := Some (Decimal 6 (- 1)), balance := Some (Decimal 1 28)\<rparr>)
         (Decimal 1 28)"
    by (simp add: exact_running_check_def unrounded_def dec_align_def blank_row_def prec_def
        Let_def ndigits.simps)
  show ?thesis
    using v x by (simp add: validate_running_part [OF ne] rounding_example_no_violation)
qed

text \<open>
  Claim C3, as the code has it. For an adjacent pair of rows whose two balances are
  present, the validator computes the expected balance from the previous balance, the
  deposit and the withdrawal of the current row in Decimal arithmetic, and reports
  exactly one CRITICAL \<open>RUNNING_BALANCE_MISMATCH\<close> for that row, carrying expected, actual
  and difference, if and only if the computed difference exceeds the tolerance 0.02.
  Where none of these additions and subtractions exceeds the 28 digits of the context,
  so that nothing is rounded, expected is the previous balance plus the deposit (or 0)
  minus the withdrawal (or 0) and the test is \<open>0.02 < \<bar>expected - balance\<bar>\<close>. Balances
  100.00, then deposit 50.00 and balance 150.03, give one violation with expected
  150.00, actual 150.03 and difference 0.03; balance 150.01 gives none.
\<close>

theorem running_balance_rule:
  "(0 < i \<and> i < length (rows t) \<and> balance (rows t ! (i - 1)) = Some pb \<and>
    balance (rows t ! i) = Some cb \<longrightarrow>
      filter (\<lambda>v. rule v = ''RUNNING_BALANCE_MISMATCH'' \<and> row v = Some i) (validate today t)
        = (if dec_less tolerance (dec_abs (dec_sub (expected_balance pb (rows t ! i)) cb))
           then [\<lparr>rule = ''RUNNING_BALANCE_MISMATCH'', severity = ''CRITICAL'', row = Some i,
                  field = None, expected = Some (expected_balance pb (rows t ! i)),
                  actual = Some cb,
                  difference = Some (dec_abs (dec_sub (expected_balance pb (rows t ! i)) cb))\<rparr>]
           else [])
      \<and> (exact_running_check pb (rows t ! i) cb \<longrightarrow>
           dec_val (expected_balance pb (rows t ! i))
             = dec_val pb + or_zero (deposit (rows t ! i)) - or_zero (withdrawal (rows t ! i))
           \<and> dec_val (dec_abs (dec_sub (expected_balance pb (rows t ! i)) cb))
             = \<bar>dec_val (expected_balance pb (rows t ! i)) - dec_val cb\<bar>
           \<and> (dec_less tolerance (dec_abs (dec_sub (expected_balance pb (rows t ! i)) cb))
                \<longleftrightarrow> 2 / 100 < \<bar>dec_val pb + or_zero (deposit (rows t ! i))
                                   - or_zero (withdrawal (rows t ! i)) - dec_val cb\<bar>)))
   \<and> filter (\<lambda>v. rule v = ''RUNNING_BALANCE_MISMATCH'')
        (validate today (table_of [row_balance_100, row_deposit_50 (Decimal 15003 (- 2))]))
      = [\<lparr>rule = ''RUNNING_BALANCE_MISMATCH'', severity = ''CRITICAL'', row = Some 1, field = None,
          expected = Some (Decimal 15000 (- 2)), actual = Some (Decimal 15003 (- 2)),
          difference = Some (Decimal 3 (- 2))\<rparr>]
   \<and> filter (\<lambda>v. rule v = ''RUNNING_BALANCE_MISMATCH'')
        (validate today (table_of [row_balance_100, row_deposit_50 (Decimal 15001 (- 2))]))
      = []"
proof (intro conjI impI)
  assume h: "0 < i \<and> i < length (rows t) \<and> balance (rows t ! (i - 1)) = Some pb \<and>
    balance (rows t ! i) = Some cb"
  then have "filter (\<lambda>v. rule v = ''RUNNING_BALANCE_MISMATCH'' \<and> row v = Some i)
      (validate today t) = running_pair (rows t) i"
    using validate_running_at by blast
  then show "filter (\<lambda>v. rule v = ''RUNNING_BALANCE_MISMATCH'' \<and> row v = Some i)
      (validate today t)
        = (if dec_less tolerance (dec_abs (dec_sub (expected_balance pb (rows t ! i)) cb))
           then [\<lparr>rule = ''RUNNING_BALANCE_MISMATCH'', severity = ''CRITICAL'', row = Some i,
                  field = None, expected = Some (expected_balance pb (rows t ! i)),
                  actual = Some cb,
                  difference = Some (dec_abs (dec_sub (expected_balance pb (rows t ! i)) cb))\<rparr>]
           else [])"
    using h by (simp add: running_pair_def mismatch_def violation_def Let_def)
next
  assume e: "exact_running_check pb (rows t ! i) cb"
  show v: "dec_val (expected_balance pb (rows t ! i))
      = dec_val pb + or_zero (deposit (rows t ! i)) - or_zero (withdrawal (rows t ! i))"
    using e by (rule expected_balance_val)
  have u: "unrounded (expected_balance pb (rows t ! i)) (dec_neg cb)"
    using e by (simp add: exact_running_check_def)
  show a: "dec_val (dec_abs (dec_sub (expected_balance pb (rows t ! i)) cb))
      = \<bar>dec_val (expected_balance pb (rows t ! i)) - dec_val cb\<bar>"
    using u by (rule dec_val_abs_sub)
  show "dec_less tolerance (dec_abs (dec_sub (expected_balance pb (rows t ! i)) cb))
      \<longleftrightarrow> 2 / 100 < \<bar>dec_val pb + or_zero (deposit (rows t ! i))
                         - or_zero (withdrawal (rows t ! i)) - dec_val cb\<bar>"
    by (simp only: dec_less_val dec_val_tolerance a v)
next
  have ne: "rows (table_of [row_balance_100, row_deposit_50 (Decimal 15003 (- 2))]) \<noteq> []"
    by (simp add: table_of_def)
  show "filter (\<lambda>v. rule v = ''RUNNING_BALANCE_MISMATCH'')
        (validate today (table_of [row_balance_100, row_deposit_50 (Decimal 15003 (- 2))]))
      = [\<lparr>rule = ''RUNNING_BALANCE_MISMATCH'', severity = ''CRITICAL'', row = Some 1, field = None,
          expected = Some (Decimal 15000 (- 2)), actual = Some (Decimal 15003 (- 2)),
          difference = Some (Decimal 3 (- 2))\<rparr>]"
    by (simp only: validate_running_part [OF ne] example_mismatch)
next
  have ne: "rows (table_of [row_balance_100, row_deposit_50 (Decimal 15001 (- 2))]) \<noteq> []"
    by (simp add: table_of_def)
  show "filter (\<lambda>v. rule v = ''RUNNING_BALANCE_MISMATCH'')
        (validate today (table_of [row_balance_100, row_deposit_50 (Decimal 15001 (- 2))]))
      = []"
    by (simp only: validate_running_part [OF ne] example_within_tolerance)
qed

lemma example_exact:
  "exact_running_check (Decimal 10000 (- 2)) (row_deposit_50 (Decimal 15003 (- 2)))
     (Decimal 15003 (- 2))"
  by (simp add: exact_running_check_def unrounded_def row_deposit_50_def blank_row_def
      expected_balance_def dec_add_def dec_sub_def dec_neg_def dec_align_def dec_fix_def
      prec_def Let_def ndigits.simps)

theorem running_balance_rule_witness:
  "(0::nat) < 1
   \<and> 1 < length (rows (table_of [row_balance_100, row_deposit_50 (Decimal 15003 (- 2))]))
   \<and> balance (rows (table_of [row_balance_100, row_deposit_50 (Decimal 15003 (- 2))]) ! (1 - 1))
       = Some (Decimal 10000 (- 2))
   \<and> balance (rows (table_of [row_balance_100, row_deposit_50 (Decimal 15003 (- 2))]) ! 1)
       = Some (Decimal 15003 (- 2))
   \<and> exact_running_check (Decimal 10000 (- 2))
       (rows (table_of [row_balance_100, row_deposit_50 (Decimal 15003 (- 2))]) ! 1)
       (Decimal 15003 (- 2))
   \<and> dec_val (expected_balance (Decimal 10000 (- 2))
        (rows (table_of [row_balance_100, row_deposit_50 (Decimal 15003 (- 2))]) ! 1)) = 150
   \<and> dec_less tolerance (dec_abs (dec_sub (expected_balance (Decimal 10000 (- 2))
        (rows (table_of [row_balance_100, row_deposit_50 (Decimal 15003 (- 2))]) ! 1))
        (Decimal 15003 (- 2))))"
proof -
  let ?t = "table_of [row_balance_100, row_deposit_50 (Decimal 15003 (- 2))]"
  have r1: "rows ?t ! 1 = row_deposit_50 (Decimal 15003 (- 2))"
    by (simp add: table_of_def)
  have h: "(0::nat) < 1 \<and> 1 < length (rows ?t)
      \<and> balance (rows ?t ! (1 - 1)) = Some (Decimal 10000 (- 2))
      \<and> balance (rows ?t ! 1) = Some (Decimal 15003 (- 2))"
    by (simp add: table_of_def row_balance_100_def row_deposit_50_def blank_row_def)
  have e: "exact_running_check (Decimal 10000 (- 2)) (rows ?t ! 1) (Decimal 15003 (- 2))"
    unfolding r1 by (rule example_exact)
  have o: "or_zero (deposit (rows ?t ! 1)) = 50 \<and> or_zero (withdrawal (rows ?t ! 1)) = 0"
    unfolding r1 by (simp add: or_zero_def row_deposit_50_def blank_row_def dec_val_def)
  have d: "dec_val (Decimal 10000 (- 2)) = 100 \<and> dec_val (Decimal 15003 (- 2)) = 15003 / 100"
    by (simp add: dec_val_def)
  show ?thesis
    using h e o d running_balance_rule [of 1 ?t "Decimal 10000 (- 2)" "Decimal 15003 (- 2)" 0]
    by simp
qed

subsection \<open>The currency-validity check\<close>

text \<open>
  Claim C4, at the amount 1,000,000. The source tests \<^verbatim>\<open>abs(amount) > 1_000_000\<close> under
  the comment \<^verbatim>\<open>Check reasonable range (< $1 million for single transaction)\<close>: an
  amount of exactly 1,000,000, written \<^verbatim>\<open>Decimal('1000000')\<close> or
  \<^verbatim>\<open>Decimal('1000000.00')\<close>, passes the check and no \<open>INVALID_AMOUNT_FORMAT\<close> is
  reported for it, while 1,000,000.01 fails. The test on the exponent takes its absolute
  value, so \<^verbatim>\<open>Decimal('1E+3')\<close>, which has no fractional digit, fails too.
\<close>

theorem one_million_passes_currency_check:
  "is_valid_currency (Decimal 1000000 0)
   \<and> is_valid_currency (Decimal 100000000 (- 2))
   \<and> dec_val (Decimal 100000000 (- 2)) = 1000000
   \<and> validate_amount_format (table_of [blank_row\<lparr>deposit := Some (Decimal 100000000 (- 2))\<rparr>]) = []
   \<and> \<not> is_valid_currency (Decimal 100000001 (- 2))
   \<and> \<not> is_valid_currency (Decimal 1 3)"
  by (simp add: is_valid_currency_def dec_less_def dec_abs_def dec_of_int_def dec_align_def
      dec_fix_def prec_def Let_def ndigits.simps dec_val_def validate_amount_format_def
      amount_row_violations_def presence_violation_def format_violation_def table_of_def
      blank_table_def blank_row_def)

subsection \<open>The report after the summary, and after the orchestrator\<close>

lemma filter_nonempty_iff: "0 < length (filter P xs) \<longleftrightarrow> (\<exists>a\<in>set xs. P a)"
  by (simp add: filter_empty_conv)

lemma calculate_summary_rule_violations [simp]:
  "rule_violations (calculate_summary rep) = rule_violations rep"
  by (simp add: calculate_summary_def Let_def)

lemma calculate_summary_failed_checks [simp]:
  "failed_checks (calculate_summary rep) = failed_checks rep"
  by (simp add: calculate_summary_def Let_def)

lemma calculate_summary_passed_checks [simp]:
  "passed_checks (calculate_summary rep) = passed_checks rep"
  by (simp add: calculate_summary_def Let_def)

lemma calculate_summary_risk_signals [simp]:
  "risk_signals (calculate_summary rep) = risk_signals rep"
  by (simp add: calculate_summary_def Let_def)

lemma calculate_summary_total_checks:
  "total_checks (calculate_summary rep) =
     (if total_checks rep = 0 then passed_checks rep + failed_checks rep
      else max (total_checks rep) (passed_checks rep + failed_checks rep))"
  by (simp add: calculate_summary_def Let_def)

lemma calculate_summary_status:
  "validation_status (calculate_summary rep) =
     (if \<exists>v\<in>set (rule_violations rep). severity v = ''CRITICAL'' then ''NEEDS_REVIEW''
      else if (\<exists>v\<in>set (rule_violations rep). severity v = ''HIGH'') \<or>
              (of_int (total_checks (calculate_summary rep)) :: rat) / 10
                < of_int (failed_checks rep)
      then ''REVIEW_RECOMMENDED''
      else ''APPROVED'')"
  by (simp add: calculate_summary_def Let_def filter_empty_conv)

lemma calculate_summary_rule_pass_rate:
  "rule_pass_rate (calculate_summary rep) =
     (if 0 < total_checks (calculate_summary rep)
      then of_int (passed_checks rep) / of_int (total_checks (calculate_summary rep))
      else 0)"
  by (simp add: calculate_summary_def Let_def)

lemma count_checks_pos: "0 < count_checks t"
proof (cases "rows t = []")
  case True
  then show ?thesis by (simp add: count_checks_def)
next
  case False
  then obtain r rs where "rows t = r # rs" by (cases "rows t") auto
  then show ?thesis by (simp add: count_checks_def Let_def)
qed

lemma before_scoring_rule_violations:
  "rule_violations (report_before_scoring lib cfg today patterns t) = validate today t"
  by (simp add: report_before_scoring_def Let_def add_violations_def new_report_def)

lemma before_scoring_failed_checks:
  "failed_checks (report_before_scoring lib cfg today patterns t)
     = int (length (validate today t))"
  by (simp add: report_before_scoring_def Let_def add_violations_def new_report_def)

lemma before_scoring_passed_checks:
  "passed_checks (report_before_scoring lib cfg today patterns t) =
     count_checks t - int (length (validate today t))"
  using validate_le_count_checks [of today t]
  by (simp add: report_before_scoring_def Let_def add_violations_def new_report_def)

lemma before_scoring_total_checks:
  "total_checks (report_before_scoring lib cfg today patterns t) = count_checks t"
  using validate_le_count_checks [of today t] count_checks_pos [of t]
  by (simp add: report_before_scoring_def Let_def add_violations_def new_report_def
      calculate_summary_total_checks)

lemma before_scoring_risk_signals:
  "risk_signals (report_before_scoring lib cfg today patterns t)
     = Some (to_dict (detect_signals cfg t))"
  by (simp add: report_before_scoring_def Let_def add_violations_def new_report_def)

lemma before_scoring_rule_pass_rate:
  "rule_pass_rate (report_before_scoring lib cfg today patterns t) =
     of_int (count_checks t - int (length (validate today t))) / of_int (count_checks t)"
proof -
  have "rule_pass_rate (report_before_scoring lib cfg today patterns t) =
     of_int (passed_checks (report_before_scoring lib cfg today patterns t))
       / of_int (total_checks (report_before_scoring lib cfg today patterns t))"
    using before_scoring_total_checks [of lib cfg today patterns t] count_checks_pos [of t]
    by (simp add: report_before_scoring_def Let_def calculate_summary_rule_pass_rate)
  then show ?thesis
    by (simp only: before_scoring_passed_checks before_scoring_total_checks)
qed

lemma before_scoring_status:
  "validation_status (report_before_scoring lib cfg today patterns t) =
     (if \<exists>v\<in>set (validate today t). severity v = ''CRITICAL'' then ''NEEDS_REVIEW''
      else if (\<exists>v\<in>set (validate today t). severity v = ''HIGH'') \<or>
              (of_int (count_checks t) :: rat) / 10 < of_int (int (length (validate today t)))
      then ''REVIEW_RECOMMENDED''
      else ''APPROVED'')"
proof -
  have "validation_status (report_before_scoring lib cfg today patterns t) =
    validation_status (calculate_summary
      ((add_violations (new_report (document_id t) ''APPROVED''
          (Some (to_dict (detect_signals cfg t)))) (validate today t))
        \<lparr>warnings := int (length (match_patterns lib patterns t)),
         pattern_matches := Some (match_patterns lib patterns t),
         total_checks := count_checks t,
         passed_checks := max (count_checks t - int (length (validate today t))) 0\<rparr>))"
    by (simp add: report_before_scoring_def Let_def add_violations_def new_report_def)
  also have "\<dots> =
     (if \<exists>v\<in>set (validate today t). severity v = ''CRITICAL'' then ''NEEDS_REVIEW''
      else if (\<exists>v\<in>set (validate today t). severity v = ''HIGH'') \<or>
              (of_int (count_checks t) :: rat) / 10 < of_int (int (length (validate today t)))
      then ''REVIEW_RECOMMENDED''
      else ''APPROVED'')"
    using validate_le_count_checks [of today t] count_checks_pos [of t]
    by (simp add: calculate_summary_status calculate_summary_total_checks
        add_violations_def new_report_def)
  finally show ?thesis .
qed

lemma process_rule_violations:
  "rule_violations (process lib cfg today patterns t) = validate today t"
  by (simp add: process_def Let_def before_scoring_rule_violations)

lemma process_failed_checks:
  "failed_checks (process lib cfg today patterns t) = int (length (validate today t))"
  by (simp add: process_def Let_def before_scoring_failed_checks)

lemma process_passed_checks:
  "passed_checks (process lib cfg today patterns t) =
     count_checks t - int (length (validate today t))"
  by (simp add: process_def Let_def before_scoring_passed_checks)

lemma process_total_checks:
  "total_checks (process lib cfg today patterns t) = count_checks t"
  by (simp add: process_def Let_def before_scoring_total_checks)

lemma process_status:
  "validation_status (process lib cfg today patterns t) =
     (if \<exists>v\<in>set (validate today t). severity v = ''CRITICAL'' then ''NEEDS_REVIEW''
      else if (\<exists>v\<in>set (validate today t). severity v = ''HIGH'') \<or>
              (of_int (count_checks t) :: rat) / 10 < of_int (int (length (validate today t)))
      then ''REVIEW_RECOMMENDED''
      else ''APPROVED'')"
  by (simp add: process_def Let_def before_scoring_status)

lemma process_confidence:
  "report_overall_confidence (process lib cfg today patterns t)
     = assessed_score (assess cfg t (report_before_scoring lib cfg today patterns t))"
  "confidence_label (process lib cfg today patterns t)
     = assessed_label (assess cfg t (report_before_scoring lib cfg today patterns t))"
  by (simp_all add: process_def Let_def)

subsection \<open>The verdict\<close>

text \<open>
  Claim C1. The status that \<open>calculate_summary\<close> sets is \<open>NEEDS_REVIEW\<close> when some rule
  violation is CRITICAL; otherwise \<open>REVIEW_RECOMMENDED\<close> when some violation is HIGH or
  \<open>failed_checks\<close> exceeds a tenth of \<open>total_checks\<close>; otherwise \<open>APPROVED\<close>. The same
  holds of the report of the orchestrator, over the violations of \<open>validate\<close>; so a table
  with a CRITICAL violation is \<open>NEEDS_REVIEW\<close>, whatever the confidence score.
\<close>

theorem status_derivation:
  "validation_status (calculate_summary rep) =
     (if \<exists>v\<in>set (rule_violations rep). severity v = ''CRITICAL'' then ''NEEDS_REVIEW''
      else if (\<exists>v\<in>set (rule_violations rep). severity v = ''HIGH'') \<or>
              (of_int (total_checks (calculate_summary rep)) :: rat) / 10
                < of_int (failed_checks (calculate_summary rep))
      then ''REVIEW_RECOMMENDED''
      else ''APPROVED'')
   \<and> validation_status (process lib cfg today patterns t) =
     (if \<exists>v\<in>set (validate today t). severity v = ''CRITICAL'' then ''NEEDS_REVIEW''
      else if (\<exists>v\<in>set (validate today t). severity v = ''HIGH'') \<or>
              (of_int (total_checks (process lib cfg today patterns t)) :: rat) / 10
                < of_int (failed_checks (process lib cfg today patterns t))
      then ''REVIEW_RECOMMENDED''
      else ''APPROVED'')
   \<and> ((\<exists>v\<in>set (validate today t). severity v = ''CRITICAL'') \<longrightarrow>
        validation_status (process lib cfg today patterns t) = ''NEEDS_REVIEW'')
   \<and> ((\<exists>v\<in>set (rule_violations rep). severity v = ''CRITICAL'') \<longrightarrow>
        validation_status (calculate_summary (rep\<lparr>report_overall_confidence := c\<rparr>))
          = ''NEEDS_REVIEW'')"
proof (intro conjI impI)
  show "validation_status (calculate_summary rep) =
     (if \<exists>v\<in>set (rule_violations rep). severity v = ''CRITICAL'' then ''NEEDS_REVIEW''
      else if (\<exists>v\<in>set (rule_violations rep). severity v = ''HIGH'') \<or>
              (of_int (total_checks (calculate_summary rep)) :: rat) / 10
                < of_int (failed_checks (calculate_summary rep))
      then ''REVIEW_RECOMMENDED''
      else ''APPROVED'')"
    by (simp only: calculate_summary_status calculate_summary_failed_checks)
next
  show "validation_status (process lib cfg today patterns t) =
     (if \<exists>v\<in>set (validate today t). severity v = ''CRITICAL'' then ''NEEDS_REVIEW''
      else if (\<exists>v\<in>set (validate today t). severity v = ''HIGH'') \<or>
              (of_int (total_checks (process lib cfg today patterns t)) :: rat) / 10
                < of_int (failed_checks (process lib cfg today patterns t))
      then ''REVIEW_RECOMMENDED''
      else ''APPROVED'')"
    by (simp only: process_status process_total_checks process_failed_checks)
next
  assume "\<exists>v\<in>set (validate today t). severity v = ''CRITICAL''"
  then show "validation_status (process lib cfg today patterns t) = ''NEEDS_REVIEW''"
    by (simp only: process_status if_True)
next
  assume "\<exists>v\<in>set (rule_violations rep). severity v = ''CRITICAL''"
  then have "\<exists>v\<in>set (rule_violations (rep\<lparr>report_overall_confidence := c\<rparr>)).
    severity v = ''CRITICAL''" by simp
  then show "validation_status (calculate_summary (rep\<lparr>report_overall_confidence := c\<rparr>))
          = ''NEEDS_REVIEW''"
    by (simp only: calculate_summary_status if_True)
qed

lemma validate_one_blank_row:
  "validate 0 (blank_table\<lparr>rows := [blank_row]\<rparr>) =
     [violation ''DATE_MISSING'' ''CRITICAL'' (Some 0), violation ''NO_AMOUNT'' ''HIGH'' (Some 0)]"
  by (simp add: validate_def validate_date_range_def validate_amount_format_def
      validate_running_balance_def validate_overall_balance_def blank_table_def blank_row_def
      date_row_violations_def amount_row_violations_def presence_violation_def
      format_violation_def)

theorem status_derivation_witness:
  "(\<exists>v\<in>set (validate 0 (blank_table\<lparr>rows := [blank_row]\<rparr>)). severity v = ''CRITICAL'')
   \<and> validation_status
        (process plain_library default_config 0 get_default_patterns
           (blank_table\<lparr>rows := [blank_row]\<rparr>)) = ''NEEDS_REVIEW''"
proof -
  have c: "\<exists>v\<in>set (validate 0 (blank_table\<lparr>rows := [blank_row]\<rparr>)). severity v = ''CRITICAL''"
    by (simp add: validate_one_blank_row violation_def)
  show ?thesis
    using c status_derivation [of _ plain_library default_config 0 get_default_patterns
        "blank_table\<lparr>rows := [blank_row]\<rparr>"]
    by blast
qed

text \<open>
  Claim C2. In the report of the orchestrator, \<open>total_checks\<close> is at least
  \<open>passed_checks + failed_checks\<close>, \<open>failed_checks\<close> is the number of rule violations
  and \<open>passed_checks\<close> is not negative; and \<open>calculate_summary\<close> establishes the
  inequality for any report, also one whose failed checks exceed its total.
\<close>

theorem total_checks_covers_passed_and_failed:
  "passed_checks (process lib cfg today patterns t) + failed_checks (process lib cfg today patterns t)
     \<le> total_checks (process lib cfg today patterns t)
   \<and> failed_checks (process lib cfg today patterns t)
       = int (length (rule_violations (process lib cfg today patterns t)))
   \<and> rule_violations (process lib cfg today patterns t) = validate today t
   \<and> 0 \<le> passed_checks (process lib cfg today patterns t)
   \<and> passed_checks (calculate_summary rep) + failed_checks (calculate_summary rep)
       \<le> total_checks (calculate_summary rep)"
  using validate_le_count_checks [of today t]
  by (simp add: process_passed_checks process_failed_checks process_total_checks
      process_rule_violations calculate_summary_total_checks)

theorem total_checks_covers_passed_and_failed_witness:
  "passed_checks (process plain_library default_config 0 get_default_patterns blank_table)
     + failed_checks (process plain_library default_config 0 get_default_patterns blank_table)
     \<le> total_checks (process plain_library default_config 0 get_default_patterns blank_table)"
  using total_checks_covers_passed_and_failed
    [of plain_library default_config 0 get_default_patterns blank_table]
  by blast

subsection \<open>The confidence score\<close>

lemma weighted_score_bounds: "0 \<le> weighted_score cs \<and> weighted_score cs \<le> 1"
  by (simp add: weighted_score_def Let_def)

lemma assess_score_bounds:
  "0 \<le> assessed_score (assess cfg t rep) \<and> assessed_score (assess cfg t rep) \<le> 1"
  using weighted_score_bounds by (simp add: assess_def Let_def)

lemma assess_label: "assessed_label (assess cfg t rep) = label_of (assessed_score (assess cfg t rep))"
  by (simp add: assess_def Let_def)

lemma validate_empty: "rows t = [] \<Longrightarrow> validate today t = [violation ''NO_ROWS'' ''CRITICAL'' None]"
  by (simp add: validate_def)

lemma count_checks_empty: "rows t = [] \<Longrightarrow> count_checks t = 1"
  by (simp add: count_checks_def)

lemma detect_signals_empty:
  "rows t = [] \<Longrightarrow> to_dict (detect_signals cfg t) =
     \<lparr>total_signals = 1, critical_count = 1, high_count = 0, medium_count = 0, low_count = 0,
      signals = detect_signals cfg t\<rparr>"
  by (simp add: detect_signals_def add_def to_dict_def count_severity_def)

lemma engine_confidence_empty:
  "rows t = [] \<Longrightarrow> overall_confidence t = 0 \<Longrightarrow> engine_confidence t = 0"
  by (simp add: engine_confidence_def)

lemma field_completeness_empty:
  "rows t = [] \<Longrightarrow> fst (field_completeness t) = 0"
  by (simp add: field_completeness_def)

lemma weights_default:
  "get_or (confidence_weights default_config) ''engine_quality'' d = 30 / 100"
  "get_or (confidence_weights default_config) ''field_completeness'' d = 25 / 100"
  "get_or (confidence_weights default_config) ''rule_consistency'' d = 30 / 100"
  "get_or (confidence_weights default_config) ''risk_signals'' d = 15 / 100"
  by (simp_all add: get_or_def default_config_def)

lemma risk_score_empty:
  "rows t = [] \<Longrightarrow>
   fst (risk_signal_score (risk_signals (report_before_scoring lib cfg today patterns t))) = 8 / 10"
  by (simp add: before_scoring_risk_signals detect_signals_empty risk_signal_score_def Let_def)

lemma pass_rate_empty:
  "rows t = [] \<Longrightarrow> rule_pass_rate (report_before_scoring lib cfg today patterns t) = 0"
  by (simp add: before_scoring_rule_pass_rate validate_empty count_checks_empty)

lemma make_component_simps:
  "available (make_component k l (Some s) w d)"
  "weight (make_component k l s' w d) = w"
  "score (make_component k l s' w d) = s'"
  by (simp_all add: available_def make_component_def)

lemma empty_table_score:
  assumes "rows t = []" "overall_confidence t = 0"
  shows "assessed_score (assess default_config t
           (report_before_scoring lib default_config today patterns t)) = 12 / 100"
  using assms
  by (simp add: assess_def Let_def weights_default engine_confidence_empty
      field_completeness_empty risk_score_empty pass_rate_empty weighted_score_def
      make_component_simps)

lemma empty_table_score_fallback:
  assumes "rows t = []" "overall_confidence t = 0" "confidence_weights cfg = (\<lambda>k. None)"
  shows "assessed_score (assess cfg t (report_before_scoring lib cfg today patterns t)) = 1 / 10"
  using assms
  by (simp add: assess_def Let_def get_or_def engine_confidence_empty
      field_completeness_empty risk_score_empty pass_rate_empty weighted_score_def
      make_component_simps)

text \<open>
  Claim C5 as stated fails at the empty table: its score under the default configuration
  is not 0.
\<close>

theorem empty_table_score_counterexample:
  "rows blank_table = [] \<and> overall_confidence blank_table = 0
   \<and> report_overall_confidence
        (process plain_library default_config 0 get_default_patterns blank_table) \<noteq> 0"
proof -
  have e: "rows blank_table = []" "overall_confidence blank_table = 0"
    by (simp_all add: blank_table_def)
  show ?thesis
    using e empty_table_score [OF e, of plain_library 0 get_default_patterns]
    by (simp add: process_confidence)
qed

text \<open>
  Claim C5, as the code has it. The overall confidence score lies in \<open>[0, 1]\<close> for every
  input table, configuration and report. For a table with no rows and engine-reported
  confidence 0 the score is not 0: the \<open>NO_ROWS\<close> risk signal leaves the risk-signal
  component at \<open>1 - 0.20 = 0.8\<close> while the three other components are 0, so the score is
  \<open>0.8 * 0.15 / 1.00 = 0.12\<close> under the default configuration (and
  \<open>0.8 * 0.10 / 0.80 = 0.10\<close> under the fallback weights of the scorer); the label is
  \<open>Low\<close>.
\<close>

theorem confidence_score_range_and_empty_table:
  "0 \<le> report_overall_confidence (process lib cfg today patterns t)
   \<and> report_overall_confidence (process lib cfg today patterns t) \<le> 1
   \<and> 0 \<le> assessed_score (assess cfg t rep) \<and> assessed_score (assess cfg t rep) \<le> 1
   \<and> (rows t = [] \<and> overall_confidence t = 0 \<longrightarrow>
        report_overall_confidence (process lib default_config today patterns t) = 12 / 100
        \<and> confidence_label (process lib default_config today patterns t) = ''Low''
        \<and> (confidence_weights cfg = (\<lambda>k. None) \<longrightarrow>
             report_overall_confidence (process lib cfg today patterns t) = 10 / 100
             \<and> confidence_label (process lib cfg today patterns t) = ''Low''))"
proof (intro conjI impI)
  show "0 \<le> report_overall_confidence (process lib cfg today patterns t)"
    and "report_overall_confidence (process lib cfg today patterns t) \<le> 1"
    using assess_score_bounds by (simp_all add: process_confidence)
  show "0 \<le> assessed_score (assess cfg t rep)" and "assessed_score (assess cfg t rep) \<le> 1"
    using assess_score_bounds by simp_all
next
  assume e: "rows t = [] \<and> overall_confidence t = 0"
  then show s: "report_overall_confidence (process lib default_config today patterns t) = 12 / 100"
    by (simp add: process_confidence empty_table_score)
  show "confidence_label (process lib default_config today patterns t) = ''Low''"
    using s by (simp add: process_confidence assess_label label_of_def)
next
  assume e: "rows t = [] \<and> overall_confidence t = 0"
    and w: "confidence_weights cfg = (\<lambda>k. None)"
  then show s: "report_overall_confidence (process lib cfg today patterns t) = 10 / 100"
    by (simp add: process_confidence empty_table_score_fallback)
  show "confidence_label (process lib cfg today patterns t) = ''Low''"
    using s by (simp add: process_confidence assess_label label_of_def)
qed

theorem confidence_score_range_and_empty_table_witness:
  "rows blank_table = [] \<and> overall_confidence blank_table = 0
   \<and> report_overall_confidence
        (process plain_library default_config 0 get_default_patterns blank_table) = 12 / 100
   \<and> confidence_label
        (process plain_library default_config 0 get_default_patterns blank_table) = ''Low''
   \<and> confidence_weights (default_config\<lparr>confidence_weights := (\<lambda>k. None)\<rparr>) = (\<lambda>k. None)
   \<and> report_overall_confidence
        (process plain_library (default_config\<lparr>confidence_weights := (\<lambda>k. None)\<rparr>) 0
           get_default_patterns blank_table) = 10 / 100"
proof -
  have e: "rows blank_table = [] \<and> overall_confidence blank_table = 0"
    by (simp add: blank_table_def)
  have w: "confidence_weights (default_config\<lparr>confidence_weights := (\<lambda>k. None)\<rparr>) = (\<lambda>k. None)"
    by simp
  show ?thesis
    using e w
      confidence_score_range_and_empty_table [of plain_library default_config 0
        get_default_patterns blank_table _ ]
      confidence_score_range_and_empty_table [of plain_library
        "default_config\<lparr>confidence_weights := (\<lambda>k. None)\<rparr>" 0 get_default_patterns blank_table _]
    by blast
qed

subsection \<open>The engine-quality component\<close>

lemma engine_confidence_eq:
  "engine_confidence t =
     (if 0 < overall_confidence t then overall_confidence t
      else if filter (\<lambda>v. v \<noteq> 0)
                (concat (map (\<lambda>r. [date_confidence r, amount_confidence r, balance_confidence r])
                   (rows t))) = []
      then 0
      else sum_list (filter (\<lambda>v. v \<noteq> 0)
              (concat (map (\<lambda>r. [date_confidence r, amount_confidence r, balance_confidence r])
                 (rows t))))
           / of_nat (length (filter (\<lambda>v. v \<noteq> 0)
              (concat (map (\<lambda>r. [date_confidence r, amount_confidence r, balance_confidence r])
                 (rows t))))))"
  by (simp add: engine_confidence_def Let_def filter_concat comp_def)

lemma engine_confidence_ignores_description:
  "engine_confidence (t\<lparr>rows := map (\<lambda>r. r\<lparr>description_confidence := f r\<rparr>) (rows t)\<rparr>)
     = engine_confidence t"
proof -
  have m: "(\<lambda>r. filter (\<lambda>v. v \<noteq> 0)
             [date_confidence r, amount_confidence r, balance_confidence r])
           \<circ> (\<lambda>r. r\<lparr>description_confidence := f r\<rparr>)
         = (\<lambda>r :: TransactionRow. filter (\<lambda>v. v \<noteq> 0)
             [date_confidence r, amount_confidence r, balance_confidence r])"
    by (rule ext) (simp del: filter.simps)
  show ?thesis
    unfolding engine_confidence_def Let_def by (simp add: m del: filter.simps)
qed

lemma engine_confidence_no_data:
  assumes "\<not> 0 < overall_confidence t"
    and "\<forall>r\<in>set (rows t). date_confidence r = 0 \<and> amount_confidence r = 0 \<and> balance_confidence r = 0"
  shows "engine_confidence t = 0"
proof -
  have "concat (map (\<lambda>r. filter (\<lambda>v. v \<noteq> 0)
          [date_confidence r, amount_confidence r, balance_confidence r]) rs) = []"
    if "\<forall>r\<in>set rs. date_confidence r = 0 \<and> amount_confidence r = 0 \<and> balance_confidence r = 0"
    for rs :: "TransactionRow list"
    using that by (induction rs) simp_all
  then show ?thesis using assms by (simp add: engine_confidence_def Let_def)
qed

text \<open>
  Claim C6 as stated fails: a row with date, amount and balance confidence 1 and
  description confidence 0.5 has engine quality 1, where the mean over the four fields
  would be 0.875.
\<close>

theorem engine_confidence_counterexample:
  "engine_confidence
     (table_of [blank_row\<lparr>date_confidence := 1, description_confidence := 1 / 2,
                          amount_confidence := 1, balance_confidence := 1\<rparr>]) = 1
   \<and> spec_engine_confidence
     (table_of [blank_row\<lparr>date_confidence := 1, description_confidence := 1 / 2,
                          amount_confidence := 1, balance_confidence := 1\<rparr>]) = 7 / 8
   \<and> engine_confidence
     (table_of [blank_row\<lparr>date_confidence := 1, description_confidence := 1 / 2,
                          amount_confidence := 1, balance_confidence := 1\<rparr>])
     \<noteq> spec_engine_confidence
     (table_of [blank_row\<lparr>date_confidence := 1, description_confidence := 1 / 2,
                          amount_confidence := 1, balance_confidence := 1\<rparr>])"
  by (simp add: engine_confidence_def spec_engine_confidence_def table_of_def blank_table_def
      blank_row_def Let_def)

text \<open>
  Claim C6, as the code has it. The engine-quality component is the engine-reported
  overall confidence when that is positive; otherwise the mean of the non-zero values
  among the date, amount and balance confidences of all rows, and 0 when there is none.
  The description confidence of a row is not read.
\<close>

theorem engine_confidence_of_three_fields:
  "engine_confidence t =
     (if 0 < overall_confidence t then overall_confidence t
      else if filter (\<lambda>v. v \<noteq> 0)
                (concat (map (\<lambda>r. [date_confidence r, amount_confidence r, balance_confidence r])
                   (rows t))) = []
      then 0
      else sum_list (filter (\<lambda>v. v \<noteq> 0)
              (concat (map (\<lambda>r. [date_confidence r, amount_confidence r, balance_confidence r])
                 (rows t))))
           / of_nat (length (filter (\<lambda>v. v \<noteq> 0)
              (concat (map (\<lambda>r. [date_confidence r, amount_confidence r, balance_confidence r])
                 (rows t))))))
   \<and> engine_confidence (t\<lparr>rows := map (\<lambda>r. r\<lparr>description_confidence := f r\<rparr>) (rows t)\<rparr>)
       = engine_confidence t
   \<and> (0 < overall_confidence t \<longrightarrow> engine_confidence t = overall_confidence t)
   \<and> (\<not> 0 < overall_confidence t \<and>
        (\<forall>r\<in>set (rows t). date_confidence r = 0 \<and> amount_confidence r = 0 \<and>
           balance_confidence r = 0) \<longrightarrow> engine_confidence t = 0)"
  using engine_confidence_eq [of t] engine_confidence_ignores_description [where t = t and f = f]
    engine_confidence_no_data [of t]
  by (simp add: engine_confidence_def)

theorem engine_confidence_of_three_fields_witness:
  "0 < overall_confidence (blank_table\<lparr>overall_confidence := 9 / 10\<rparr>)
   \<and> engine_confidence (blank_table\<lparr>overall_confidence := 9 / 10\<rparr>) = 9 / 10
   \<and> \<not> 0 < overall_confidence (table_of [blank_row\<lparr>description_confidence := 1 / 2\<rparr>])
   \<and> engine_confidence (table_of [blank_row\<lparr>description_confidence := 1 / 2\<rparr>]) = 0"
proof -
  have a: "0 < overall_confidence (blank_table\<lparr>overall_confidence := 9 / 10\<rparr>)" by simp
  have b: "\<not> 0 < overall_confidence (table_of [blank_row\<lparr>description_confidence := 1 / 2\<rparr>])
    \<and> (\<forall>r\<in>set (rows (table_of [blank_row\<lparr>description_confidence := 1 / 2\<rparr>])).
         date_confidence r = 0 \<and> amount_confidence r = 0 \<and> balance_confidence r = 0)"
    by (simp add: table_of_def blank_table_def blank_row_def)
  show ?thesis
    using a b
      engine_confidence_of_three_fields [of "blank_table\<lparr>overall_confidence := 9 / 10\<rparr>"]
      engine_confidence_of_three_fields [of "table_of [blank_row\<lparr>description_confidence := 1 / 2\<rparr>]"]
    by simp
qed

subsection \<open>The pattern matcher\<close>

lemma get_amount_raw: "get_field_value r ''amount_raw'' = Some (StrValue (amount_raw r))"
  by (simp add: get_field_value_def)

lemma get_amount:
  "get_field_value r ''amount'' =
     (case deposit r of
        Some d \<Rightarrow> Some (DecimalValue d)
      | None \<Rightarrow> (case withdrawal r of Some w \<Rightarrow> Some (DecimalValue w) | None \<Rightarrow> None))"
  by (simp add: get_field_value_def split: option.split)

lemma format_check_simps:
  "check_format v ''has_parentheses'' = (CHR ''('' \<in> set v \<and> CHR '')'' \<in> set v)"
  "check_format v ''missing_dollar_sign'' = (CHR ''$'' \<notin> set v)"
  "check_format v ''has_comma_as_decimal'' = (CHR '','' \<in> set v \<and> CHR ''.'' \<notin> set v)"
  "check_format v ''has_letter_o'' = (CHR ''O'' \<in> set (upper v))"
  "check_format v ''has_letter_l'' = (CHR ''l'' \<in> set (lower v))"
  by (simp_all add: check_format_def format_checks_def)

lemma match_amount_raw_pattern:
  "match_pattern lib (error_pattern n d s ''amount_raw'' ''format_check'' v fx) r i =
     (if check_format (amount_raw r) v
      then [\<lparr>pattern_name = n, pm_row = i, pm_field = ''amount_raw'',
              pm_value = StrValue (amount_raw r), pm_severity = s, pm_fix_suggestion = fx\<rparr>]
      else [])"
  by (simp add: match_pattern_def error_pattern_def get_amount_raw py_str_def Let_def)

lemma match_negative_deposit:
  "match_pattern lib (error_pattern n d s ''amount'' ''value_check'' ''negative'' fx) r i =
     (case get_field_value r ''amount'' of
        None \<Rightarrow> []
      | Some fv \<Rightarrow>
          if check_value fv ''negative''
          then [\<lparr>pattern_name = n, pm_row = i, pm_field = ''amount'', pm_value = fv,
                  pm_severity = s, pm_fix_suggestion = fx\<rparr>]
          else [])"
  by (simp add: match_pattern_def error_pattern_def Let_def split: option.split)

lemma match_date_raw_pattern:
  "match_pattern lib (error_pattern n d s ''date_raw'' ''format_check'' v fx) r i =
     (if check_format (date_raw r) v
      then [\<lparr>pattern_name = n, pm_row = i, pm_field = ''date_raw'',
              pm_value = StrValue (date_raw r), pm_severity = s, pm_fix_suggestion = fx\<rparr>]
      else [])"
  by (simp add: match_pattern_def error_pattern_def get_field_value_def py_str_def Let_def)

lemma row_matches_default:
  "concat (map (\<lambda>p. match_pattern lib p r i) get_default_patterns) =
     match_pattern lib (get_default_patterns ! 0) r i @
     match_pattern lib (get_default_patterns ! 1) r i @
     match_pattern lib (get_default_patterns ! 2) r i @
     match_pattern lib (get_default_patterns ! 3) r i @
     match_pattern lib (get_default_patterns ! 4) r i @
     match_pattern lib (get_default_patterns ! 5) r i @
     match_pattern lib (get_default_patterns ! 6) r i"
  by (simp add: get_default_patterns_def)

lemma filter_concat_by_tag:
  assumes "\<And>j v. j \<in> set xs \<Longrightarrow> v \<in> set (f j) \<Longrightarrow> tag v = g j"
  shows "filter (\<lambda>v. tag v = k) (concat (map f xs)) = concat (map f (filter (\<lambda>j. g j = k) xs))"
  using assms
proof (induction xs)
  case Nil
  then show ?case by simp
next
  case (Cons j xs)
  have ih: "filter (\<lambda>v. tag v = k) (concat (map f xs)) = concat (map f (filter (\<lambda>j. g j = k) xs))"
    using Cons by simp
  have t: "\<And>v. v \<in> set (f j) \<Longrightarrow> tag v = g j" using Cons.prems by simp
  show ?case
  proof (cases "g j = k")
    case True
    then have "filter (\<lambda>v. tag v = k) (f j) = f j" using t by (simp add: filter_id_conv)
    then show ?thesis using True ih by simp
  next
    case False
    then have "filter (\<lambda>v. tag v = k) (f j) = []" using t by (simp add: filter_empty_conv)
    then show ?thesis using False ih by simp
  qed
qed

lemma filter_enumerate_index:
  "filter (\<lambda>p. fst p = i) (enumerate n rs) =
     (if n \<le> i \<and> i < n + length rs then [(i, rs ! (i - n))] else [])"
proof (induction rs arbitrary: n)
  case Nil
  then show ?case by simp
next
  case (Cons r rs)
  show ?case
  proof (cases "i = n")
    case True
    then show ?thesis using Cons [of "Suc n"] by simp
  next
    case False
    then show ?thesis using Cons [of "Suc n"] by (auto simp: Suc_diff_le)
  qed
qed

lemma match_pattern_row:
  "list_all (\<lambda>m. pm_row m = i) (match_pattern lib p r i)"
  by (simp add: match_pattern_def Let_def split: option.split)

lemma match_pattern_row_mem: "m \<in> set (match_pattern lib p r i) \<Longrightarrow> pm_row m = i"
  using match_pattern_row [of i lib p r] by (simp add: list_all_iff)

lemma row_matches_tagged:
  "v \<in> set (concat (map (\<lambda>p. match_pattern lib p r i) ps)) \<Longrightarrow> pm_row v = i"
  using match_pattern_row [of i lib _ r] by (auto simp: list_all_iff)

lemma matches_of_row:
  assumes "i < length (rows t)"
  shows "filter (\<lambda>m. pm_row m = i) (match_patterns lib ps t)
       = concat (map (\<lambda>p. match_pattern lib p (rows t ! i) i) ps)"
proof -
  have "filter (\<lambda>m. pm_row m = i)
          (concat (map (\<lambda>(row_idx, r). concat (map (\<lambda>p. match_pattern lib p r row_idx) ps))
             (enumerate 0 (rows t))))
      = concat (map (\<lambda>(row_idx, r). concat (map (\<lambda>p. match_pattern lib p r row_idx) ps))
          (filter (\<lambda>j. fst j = i) (enumerate 0 (rows t))))"
    by (rule filter_concat_by_tag) (auto dest: match_pattern_row_mem)
  then show ?thesis using assms by (simp add: match_patterns_def filter_enumerate_index)
qed

lemma of_char_examples:
  "upper ''(1200.00)'' = ''(1200.00)''" "lower ''(1200.00)'' = ''(1200.00)''"
  "upper ''(1,200.00)'' = ''(1,200.00)''" "lower ''(1,200.00)'' = ''(1,200.00)''"
  by (simp_all add: upper_def lower_def char_upper_def char_lower_def)

lemma default_names_bracket_1200:
  assumes "amount_raw r = ''(1200.00)''"
  shows "map pattern_name (filter (\<lambda>m. pm_field m = ''amount_raw'')
           (concat (map (\<lambda>p. match_pattern lib p r i) get_default_patterns)))
       = [''bracket_negative_misread'', ''dollar_sign_missing'']"
  using assms
  by (simp add: get_default_patterns_def match_amount_raw_pattern match_date_raw_pattern
      match_negative_deposit format_check_simps of_char_examples split: option.split)

lemma default_names_bracket_1_200:
  assumes "amount_raw r = ''(1,200.00)''"
  shows "map pattern_name (filter (\<lambda>m. pm_field m = ''amount_raw'')
           (concat (map (\<lambda>p. match_pattern lib p r i) get_default_patterns)))
       = [''bracket_negative_misread'', ''dollar_sign_missing'']"
  using assms
  by (simp add: get_default_patterns_def match_amount_raw_pattern match_date_raw_pattern
      match_negative_deposit format_check_simps of_char_examples split: option.split)

lemma comma_never_with_dot:
  assumes "CHR ''.'' \<in> set (amount_raw r)"
  shows "filter (\<lambda>m. pattern_name m = ''comma_decimal_confusion'')
           (concat (map (\<lambda>p. match_pattern lib p r i) get_default_patterns)) = []"
  using assms
  by (simp add: get_default_patterns_def match_amount_raw_pattern match_date_raw_pattern
      match_negative_deposit format_check_simps split: option.split)

lemma filter_conj: "filter (\<lambda>m. P m \<and> Q m) xs = filter Q (filter P xs)"
  by (simp add: conj_commute)

lemma bracket_fires:
  assumes "amount_raw r = ''(1,200.00)'' \<or> amount_raw r = ''(1200.00)''"
  shows "map pattern_name (filter (\<lambda>m. pattern_name m = ''bracket_negative_misread'')
           (concat (map (\<lambda>p. match_pattern lib p r i) get_default_patterns)))
       = [''bracket_negative_misread'']"
  using assms
  by (auto simp: get_default_patterns_def match_amount_raw_pattern match_date_raw_pattern
      match_negative_deposit format_check_simps split: option.split)

lemma of_the_two_only_bracket:
  assumes "amount_raw r = ''(1,200.00)'' \<or> amount_raw r = ''(1200.00)''"
  shows "map pattern_name
           (filter (\<lambda>m. pattern_name m = ''bracket_negative_misread'' \<or>
                        pattern_name m = ''comma_decimal_confusion'')
              (concat (map (\<lambda>p. match_pattern lib p r i) get_default_patterns)))
       = [''bracket_negative_misread'']"
  using assms
  by (auto simp: get_default_patterns_def match_amount_raw_pattern match_date_raw_pattern
      match_negative_deposit format_check_simps split: option.split)

text \<open>
  Claim C8. With the default catalog, a row whose raw amount is \<open>(1,200.00)\<close> gets a
  match of \<open>bracket_negative_misread\<close> and none of \<open>comma_decimal_confusion\<close>; for a row
  whose raw amount is \<open>(1200.00)\<close>, of these two patterns only
  \<open>bracket_negative_misread\<close> matches; and \<open>comma_decimal_confusion\<close> matches no row
  whose raw amount holds a point, so the two never fire together there.
\<close>

theorem bracket_not_comma_on_amounts_with_point:
  "(i < length (rows t) \<and> amount_raw (rows t ! i) = ''(1,200.00)'' \<longrightarrow>
      map pattern_name
        (filter (\<lambda>m. pm_row m = i \<and> pattern_name m = ''bracket_negative_misread'')
           (match_patterns lib get_default_patterns t))
        = [''bracket_negative_misread'']
      \<and> filter (\<lambda>m. pm_row m = i \<and> pattern_name m = ''comma_decimal_confusion'')
           (match_patterns lib get_default_patterns t) = [])
   \<and> (i < length (rows t) \<and> amount_raw (rows t ! i) = ''(1200.00)'' \<longrightarrow>
      map pattern_name
        (filter (\<lambda>m. pm_row m = i \<and>
                      (pattern_name m = ''bracket_negative_misread'' \<or>
                       pattern_name m = ''comma_decimal_confusion''))
           (match_patterns lib get_default_patterns t))
        = [''bracket_negative_misread''])
   \<and> (i < length (rows t) \<and> CHR ''.'' \<in> set (amount_raw (rows t ! i)) \<longrightarrow>
      filter (\<lambda>m. pm_row m = i \<and> pattern_name m = ''comma_decimal_confusion'')
        (match_patterns lib get_default_patterns t) = [])"
proof (intro conjI impI)
  assume h: "i < length (rows t) \<and> amount_raw (rows t ! i) = ''(1,200.00)''"
  then have a: "amount_raw (rows t ! i) = ''(1,200.00)'' \<or> amount_raw (rows t ! i) = ''(1200.00)''"
    by simp
  have i: "i < length (rows t)" using h by simp
  show "map pattern_name
        (filter (\<lambda>m. pm_row m = i \<and> pattern_name m = ''bracket_negative_misread'')
           (match_patterns lib get_default_patterns t))
        = [''bracket_negative_misread'']"
    by (simp only: filter_conj matches_of_row [OF i] bracket_fires [OF a])
  have d: "CHR ''.'' \<in> set (amount_raw (rows t ! i))" using h by simp
  show "filter (\<lambda>m. pm_row m = i \<and> pattern_name m = ''comma_decimal_confusion'')
           (match_patterns lib get_default_patterns t) = []"
    by (simp only: filter_conj matches_of_row [OF i] comma_never_with_dot [OF d])
next
  assume h: "i < length (rows t) \<and> amount_raw (rows t ! i) = ''(1200.00)''"
  then have a: "amount_raw (rows t ! i) = ''(1,200.00)'' \<or> amount_raw (rows t ! i) = ''(1200.00)''"
    by simp
  have i: "i < length (rows t)" using h by simp
  show "map pattern_name
        (filter (\<lambda>m. pm_row m = i \<and>
                      (pattern_name m = ''bracket_negative_misread'' \<or>
                       pattern_name m = ''comma_decimal_confusion''))
           (match_patterns lib get_default_patterns t))
        = [''bracket_negative_misread'']"
    by (simp only: filter_conj matches_of_row [OF i] of_the_two_only_bracket [OF a])
next
  assume h: "i < length (rows t) \<and> CHR ''.'' \<in> set (amount_raw (rows t ! i))"
  then have i: "i < length (rows t)" and d: "CHR ''.'' \<in> set (amount_raw (rows t ! i))"
    by simp_all
  show "filter (\<lambda>m. pm_row m = i \<and> pattern_name m = ''comma_decimal_confusion'')
        (match_patterns lib get_default_patterns t) = []"
    by (simp only: filter_conj matches_of_row [OF i] comma_never_with_dot [OF d])
qed

theorem bracket_not_comma_on_amounts_with_point_witness:
  "0 < length (rows (table_of [blank_row\<lparr>amount_raw := ''(1,200.00)''\<rparr>]))
   \<and> amount_raw (rows (table_of [blank_row\<lparr>amount_raw := ''(1,200.00)''\<rparr>]) ! 0) = ''(1,200.00)''
   \<and> CHR ''.'' \<in> set (amount_raw (rows (table_of [blank_row\<lparr>amount_raw := ''(1,200.00)''\<rparr>]) ! 0))
   \<and> map pattern_name
        (filter (\<lambda>m. pm_row m = 0 \<and> pattern_name m = ''bracket_negative_misread'')
           (match_patterns plain_library get_default_patterns
              (table_of [blank_row\<lparr>amount_raw := ''(1,200.00)''\<rparr>])))
        = [''bracket_negative_misread'']
   \<and> filter (\<lambda>m. pm_row m = 0 \<and> pattern_name m = ''comma_decimal_confusion'')
        (match_patterns plain_library get_default_patterns
           (table_of [blank_row\<lparr>amount_raw := ''(1,200.00)''\<rparr>])) = []
   \<and> 0 < length (rows (table_of [blank_row\<lparr>amount_raw := ''(1200.00)''\<rparr>]))
   \<and> amount_raw (rows (table_of [blank_row\<lparr>amount_raw := ''(1200.00)''\<rparr>]) ! 0) = ''(1200.00)''
   \<and> map pattern_name
        (filter (\<lambda>m. pm_row m = 0 \<and>
                      (pattern_name m = ''bracket_negative_misread'' \<or>
                       pattern_name m = ''comma_decimal_confusion''))
           (match_patterns plain_library get_default_patterns
              (table_of [blank_row\<lparr>amount_raw := ''(1200.00)''\<rparr>])))
        = [''bracket_negative_misread'']"
proof -
  have h: "0 < length (rows (table_of [blank_row\<lparr>amount_raw := ''(1,200.00)''\<rparr>]))
    \<and> amount_raw (rows (table_of [blank_row\<lparr>amount_raw := ''(1,200.00)''\<rparr>]) ! 0) = ''(1,200.00)''
    \<and> CHR ''.'' \<in> set (amount_raw (rows (table_of [blank_row\<lparr>amount_raw := ''(1,200.00)''\<rparr>]) ! 0))"
    by (simp add: table_of_def)
  have k: "0 < length (rows (table_of [blank_row\<lparr>amount_raw := ''(1200.00)''\<rparr>]))
    \<and> amount_raw (rows (table_of [blank_row\<lparr>amount_raw := ''(1200.00)''\<rparr>]) ! 0) = ''(1200.00)''"
    by (simp add: table_of_def)
  show ?thesis
    using h k
      bracket_not_comma_on_amounts_with_point
        [of 0 "table_of [blank_row\<lparr>amount_raw := ''(1,200.00)''\<rparr>]" plain_library]
      bracket_not_comma_on_amounts_with_point
        [of 0 "table_of [blank_row\<lparr>amount_raw := ''(1200.00)''\<rparr>]" plain_library]
    by blast
qed

lemma negative_value: "check_value (DecimalValue w) ''negative'' \<longleftrightarrow> dec_val w < 0"
  by (simp add: check_value_def dec_less_val dec_of_int_def dec_val_def)

lemma negative_deposit_on_withdrawal:
  assumes "deposit r = None" "withdrawal r = Some w" "dec_val w < 0"
  shows "filter (\<lambda>m. pattern_name m = ''negative_deposit'')
           (concat (map (\<lambda>p. match_pattern lib p r i) get_default_patterns))
       = [\<lparr>pattern_name = ''negative_deposit'', pm_row = i, pm_field = ''amount'',
           pm_value = DecimalValue w, pm_severity = ''CRITICAL'',
           pm_fix_suggestion = ''Deposits should be positive''\<rparr>]"
  using assms
  by (simp add: get_default_patterns_def match_amount_raw_pattern match_date_raw_pattern
      match_negative_deposit get_amount negative_value)

text \<open>
  Claim C10. The target field \<open>amount\<close> is the deposit of the row when that is present,
  and its withdrawal otherwise; so with the default catalog, a row with no deposit and a
  negative withdrawal gets exactly one \<open>negative_deposit\<close> match, on that withdrawal.
\<close>

theorem amount_field_and_negative_deposit:
  "get_field_value r ''amount'' =
     (case deposit r of
        Some d \<Rightarrow> Some (DecimalValue d)
      | None \<Rightarrow> map_option DecimalValue (withdrawal r))
   \<and> (i < length (rows t) \<and> deposit (rows t ! i) = None \<and> withdrawal (rows t ! i) = Some w \<and>
       dec_val w < 0 \<longrightarrow>
        filter (\<lambda>m. pm_row m = i \<and> pattern_name m = ''negative_deposit'')
          (match_patterns lib get_default_patterns t)
        = [\<lparr>pattern_name = ''negative_deposit'', pm_row = i, pm_field = ''amount'',
            pm_value = DecimalValue w, pm_severity = ''CRITICAL'',
            pm_fix_suggestion = ''Deposits should be positive''\<rparr>])"
proof (intro conjI impI)
  show "get_field_value r ''amount'' =
     (case deposit r of
        Some d \<Rightarrow> Some (DecimalValue d)
      | None \<Rightarrow> map_option DecimalValue (withdrawal r))"
    by (simp add: get_amount split: option.split)
next
  assume h: "i < length (rows t) \<and> deposit (rows t ! i) = None \<and>
    withdrawal (rows t ! i) = Some w \<and> dec_val w < 0"
  then show "filter (\<lambda>m. pm_row m = i \<and> pattern_name m = ''negative_deposit'')
          (match_patterns lib get_default_patterns t)
        = [\<lparr>pattern_name = ''negative_deposit'', pm_row = i, pm_field = ''amount'',
            pm_value = DecimalValue w, pm_severity = ''CRITICAL'',
            pm_fix_suggestion = ''Deposits should be positive''\<rparr>]"
    by (simp only: filter_conj matches_of_row negative_deposit_on_withdrawal)
qed

theorem amount_field_and_negative_deposit_witness:
  "0 < length (rows (table_of [blank_row\<lparr>withdrawal := Some (Decimal (- 500) (- 2))\<rparr>]))
   \<and> deposit (rows (table_of [blank_row\<lparr>withdrawal := Some (Decimal (- 500) (- 2))\<rparr>]) ! 0) = None
   \<and> withdrawal (rows (table_of [blank_row\<lparr>withdrawal := Some (Decimal (- 500) (- 2))\<rparr>]) ! 0)
       = Some (Decimal (- 500) (- 2))
   \<and> dec_val (Decimal (- 500) (- 2)) < 0
   \<and> map pattern_name (filter (\<lambda>m. pm_row m = 0 \<and> pattern_name m = ''negative_deposit'')
        (match_patterns plain_library get_default_patterns
           (table_of [blank_row\<lparr>withdrawal := Some (Decimal (- 500) (- 2))\<rparr>])))
       = [''negative_deposit'']"
proof -
  have h: "0 < length (rows (table_of [blank_row\<lparr>withdrawal := Some (Decimal (- 500) (- 2))\<rparr>]))
    \<and> deposit (rows (table_of [blank_row\<lparr>withdrawal := Some (Decimal (- 500) (- 2))\<rparr>]) ! 0) = None
    \<and> withdrawal (rows (table_of [blank_row\<lparr>withdrawal := Some (Decimal (- 500) (- 2))\<rparr>]) ! 0)
       = Some (Decimal (- 500) (- 2))
    \<and> dec_val (Decimal (- 500) (- 2)) < 0"
    by (simp add: table_of_def blank_row_def dec_val_def)
  show ?thesis
    using h amount_field_and_negative_deposit
      [of _ 0 "table_of [blank_row\<lparr>withdrawal := Some (Decimal (- 500) (- 2))\<rparr>]"
        "Decimal (- 500) (- 2)" plain_library]
    by simp
qed

subsection \<open>The low-confidence signal\<close>




lemma add_filter:
  "filter (\<lambda>g. signal_type g = ty') (add sigs ty d) =
     filter (\<lambda>g. signal_type g = ty') sigs @
     (if ty = ty' then [\<lparr>signal_type = ty,
              signal_severity = (case d_severity d of None \<Rightarrow> ''MEDIUM'' | Some s \<Rightarrow> s),
              details = d,
              action = (case d_action d of None \<Rightarrow> ''LOG_ONLY'' | Some a \<Rightarrow> a)\<rparr>] else [])"
  by (simp add: add_def)




lemma detect_signals_empty_types:
  assumes "rows t = []"
  shows "filter (\<lambda>g. signal_type g = ''LOW_CONFIDENCE'') (detect_signals cfg t) = []"
  using assms by (simp add: detect_signals_def add_filter)





end
